theory Spec2Isabelle
  imports Main "HOL-Library.List_Lexorder" "HOL-Library.Char_ord"
begin

section \<open>Python values, outcomes and the world of the client\<close>

text \<open>
  The command functions of \<^verbatim>\<open>blockstack_client/actions.py\<close> pass dictionaries around:
  a result is \<^verbatim>\<open>{'error': ...}\<close>, \<^verbatim>\<open>{'status': True, ...}\<close> or whatever a collaborator
  returned. A Python value is a \<open>pyval\<close>; a dictionary is an association list with string
  keys, read with \<open>map_of\<close> (first binding wins), since only membership and lookup are used.
  Floating point numbers are not part of this value model.
\<close>

datatype pyval =
    PNone
  | PBool bool
  | PInt int
  | PStr string
  | PList "pyval list"
  | PDict "(string \<times> pyval) list"

type_synonym pydict = "(string \<times> pyval) list"

text \<open>\<^verbatim>\<open>k in d\<close>, \<^verbatim>\<open>d.get(k, default)\<close> and Python's truth value of an object.\<close>

definition has_key :: "pydict \<Rightarrow> string \<Rightarrow> bool" where
  "has_key d k = (case map_of d k of None \<Rightarrow> False | Some v \<Rightarrow> True)"

definition dict_get :: "pydict \<Rightarrow> string \<Rightarrow> pyval \<Rightarrow> pyval" where
  "dict_get d k dflt = (case map_of d k of None \<Rightarrow> dflt | Some v \<Rightarrow> v)"

fun truthy :: "pyval \<Rightarrow> bool" where
  "truthy PNone = False"
| "truthy (PBool b) = b"
| "truthy (PInt n) = (n \<noteq> 0)"
| "truthy (PStr s) = (s \<noteq> [])"
| "truthy (PList xs) = (xs \<noteq> [])"
| "truthy (PDict d) = (d \<noteq> [])"

text \<open>
  What a call can do: return a value, raise an exception that nobody caught, or end the
  process (\<^verbatim>\<open>exit(0)\<close>).
\<close>

datatype exc =
    KeyError string
  | TypeError
  | AttributeError
  | ValueError
  | AssertionError
  | NameError string
  | UnboundLocalError string
  | EnvironmentError nat
  | SocketError
  | UTXOException
  | KeyboardInterrupt
  | OtherException string

datatype 'a outcome = Return 'a | Raise exc | Exit

text \<open>The error dictionary \<^verbatim>\<open>{'error': msg}\<close> and the success dictionary \<^verbatim>\<open>{'status': True}\<close>.\<close>

definition error_result :: "string \<Rightarrow> pyval" where
  "error_result msg = PDict [(''error'', PStr msg)]"

definition status_true :: pyval where
  "status_true = PDict [(''status'', PBool True)]"

text \<open>
  \<^verbatim>\<open>'error' in x\<close> on a value that came back from a collaborator: membership of the key
  for a dictionary, a \<^verbatim>\<open>TypeError\<close> for \<^verbatim>\<open>None\<close>, a boolean or a number. (Strings and lists
  never reach these tests in the modelled functions; for them the test is on elements.)
\<close>

fun py_in :: "string \<Rightarrow> pyval \<Rightarrow> bool outcome" where
  "py_in k (PDict d) = Return (has_key d k)"
| "py_in k (PStr s) = Return (list_ex (\<lambda>i. take (length k) (drop i s) = k) [0..<Suc (length s)])"
| "py_in k (PList xs) = Return (PStr k \<in> set xs)"
| "py_in k v = Raise TypeError"

text \<open>\<^verbatim>\<open>x[k]\<close> on a value: the entry of a dictionary, \<^verbatim>\<open>KeyError\<close> when it is missing.\<close>

fun py_item :: "pyval \<Rightarrow> string \<Rightarrow> pyval outcome" where
  "py_item (PDict d) k = (case map_of d k of None \<Rightarrow> Raise (KeyError k) | Some v \<Rightarrow> Return v)"
| "py_item v k = Raise TypeError"

text \<open>
  The part of the world the commands can change. The operation queue is written only by
  the local API daemon, which a command reaches through the \<^verbatim>\<open>backend_*\<close> calls of its RPC
  handle; \<open>calls\<close> records every such call, every zonefile replication and every namespace
  reveal, in order. \<open>sleeps\<close> records the arguments of \<^verbatim>\<open>time.sleep\<close>, \<open>wallet_fetches\<close>
  counts the calls of \<^verbatim>\<open>get_wallet\<close>.
\<close>

datatype call =
    Backend_update string pyval pyval pyval
  | Backend_transfer string string
  | Backend_revoke string
  | Backend_migrate string
  | Zonefile_data_replicate string pyval pyval
  | Namespace_reveal string string int int int "int list" int int string

record world =
  queue :: "pydict list"
  calls :: "call list"
  sleeps :: "nat list"
  wallet_fetches :: nat

text \<open>
  The command-line arguments (\<^verbatim>\<open>args\<close>, an argparse namespace). An optional argument that
  was not given is \<open>None\<close>.
\<close>

record args =
  arg_name :: string
  arg_data :: "string option"
  arg_address :: string
  arg_txid :: "string option"
  arg_zonefile :: "string option"
  arg_nonstandard :: "string option"
  arg_zonefile_hash :: string
  arg_block_height :: "int option"
  arg_namespace_id :: string
  arg_addr :: string
  arg_lifetime :: string
  arg_coeff :: string
  arg_base :: string
  arg_bucket_exponents :: string
  arg_nonalpha_discount :: string
  arg_no_vowel_discount :: string
  arg_privatekey :: string

text \<open>
  The collaborators whose code is outside \<^verbatim>\<open>actions.py\<close> (the blockchain indexer proxy,
  the wallet, the UTXO provider and fee estimators, the zonefile library, the local API
  daemon, the terminal) are an environment of answers: each field is what the collaborator
  answers, during one run of a command, to the query of that name. Where the source catches
  an exception of a collaborator, the answer type has a value for it (\<open>None\<close>, or an
  \<open>outcome\<close>). The constants of \<^verbatim>\<open>constants.py\<close> are fields as well.

  \<^item> \<open>get_wallet k\<close> is the answer to the \<open>k\<close>-th call (from 0) of \<^verbatim>\<open>get_wallet\<close>.
  \<^item> \<open>backend c q\<close> is the daemon's reply to the call \<open>c\<close> on the queue \<open>q\<close> (\<open>None\<close>: the
    call raised) together with the queue it leaves behind.
  \<^item> \<open>raw_input\<close> is the line the user types at the prompt, \<open>None\<close> for a keyboard interrupt.
  \<^item> \<open>allow_invalid_zonefile\<close> and \<open>namespace_reveal\<close> are names the module does not define
    itself: \<open>None\<close> when no star import provides them.
\<close>

record env =
  is_name_valid :: "string \<Rightarrow> bool"
  is_b40 :: "string \<Rightarrow> bool"
  is_name_registered :: "string \<Rightarrow> bool"
  is_name_owner :: "string \<Rightarrow> string \<Rightarrow> bool"
  wallet_exists :: bool
  initialize_wallet :: pyval
  wallet_path_exists :: bool
  is_wallet_unlocked :: bool
  unlock_wallet :: pyval
  get_wallet :: "nat \<Rightarrow> pyval outcome"
  get_addresses_from_file :: "string \<times> string \<times> string"
  get_privkey_info_address :: "pyval \<Rightarrow> string"
  start_rpc_endpoint :: pyval
  estimate_preorder_tx_fee :: "string \<Rightarrow> int option outcome"
  estimate_register_tx_fee :: "string \<Rightarrow> int option outcome"
  estimate_update_tx_fee :: "string \<Rightarrow> int option outcome"
  estimate_transfer_tx_fee :: "string \<Rightarrow> int option outcome"
  get_tx_fee :: "string \<Rightarrow> int option"
  APPROX_PREORDER_TX_LEN :: nat
  APPROX_REGISTER_TX_LEN :: nat
  APPROX_UPDATE_TX_LEN :: nat
  APPROX_TRANSFER_TX_LEN :: nat
  get_balance :: "string \<Rightarrow> int option"
  is_address_usable :: "string \<Rightarrow> bool"
  is_b58check_address_raises :: "string \<Rightarrow> bool"
  get_names_owned_by_address :: "string \<Rightarrow> string list"
  get_name_cost :: "string \<Rightarrow> pyval option"
  json_loads :: "string \<Rightarrow> pyval option"
  parse_zone_file :: "string \<Rightarrow> pydict option"
  make_zone_file :: "pyval \<Rightarrow> string option"
  is_user_zonefile :: "pyval \<Rightarrow> bool"
  hash_zonefile :: "pyval \<Rightarrow> string"
  get_zonefile_data_hash :: "pyval \<Rightarrow> string"
  get_name_zonefile :: "string \<Rightarrow> bool \<Rightarrow> pyval"
  is_profile_in_legacy_format :: "pydict \<Rightarrow> bool outcome"
  get_name_blockchain_record :: "string \<Rightarrow> pyval option"
  get_name_profile :: "string \<Rightarrow> (pyval \<times> pyval) option"
  getinfo :: pyval
  get_consensus_at :: "int \<Rightarrow> pyval"
  raw_input :: "string option"
  path_exists :: "string \<Rightarrow> bool"
  read_file :: "string \<Rightarrow> string option"
  b64encode :: "string \<Rightarrow> string"
  allow_invalid_zonefile :: "bool option"
  backend :: "call \<Rightarrow> pydict list \<Rightarrow> pyval option \<times> pydict list"
  queuedb_find :: "string \<Rightarrow> string \<Rightarrow> pydict list \<Rightarrow> pydict list"
  queue_extract_entry :: "pydict \<Rightarrow> pydict"
  zonefile_data_replicate :: "string \<Rightarrow> pyval \<Rightarrow> pyval \<Rightarrow> pyval"
  namespace_reveal :: "(call \<Rightarrow> pyval) option"
  NAME_UPDATE :: string
  get_config :: pydict
  format_exc :: string
  repr_container :: "pyval \<Rightarrow> string"

section \<open>Strings and numbers\<close>

text \<open>\<^verbatim>\<open>s.split(c)\<close> for a one-character separator: never empty, \<^verbatim>\<open>''.split(',') == ['']\<close>.\<close>

fun split_on :: "char \<Rightarrow> string \<Rightarrow> string list" where
  "split_on c [] = [[]]"
| "split_on c (x # xs) =
     (if x = c then [] # split_on c xs
      else (case split_on c xs of
              h # t \<Rightarrow> (x # h) # t
            | [] \<Rightarrow> [[x]]))"

text \<open>\<^verbatim>\<open>s.lower()\<close> on ASCII letters.\<close>

definition lower_char :: "char \<Rightarrow> char" where
  "lower_char c =
     (let n = (of_char c :: nat) in if 65 \<le> n \<and> n \<le> 90 then char_of (n + 32) else c)"

definition lower :: "string \<Rightarrow> string" where
  "lower s = map lower_char s"

text \<open>Decimal output of a number, as \<^verbatim>\<open>'{}'.format(n)\<close> prints it.\<close>

fun str_of_nat :: "nat \<Rightarrow> string" where
  "str_of_nat n =
     (if n < 10 then [char_of (48 + n)]
      else str_of_nat (n div 10) @ [char_of (48 + n mod 10)])"

definition str_of_int :: "int \<Rightarrow> string" where
  "str_of_int i = (if i < 0 then CHR ''-'' # str_of_nat (nat (- i)) else str_of_nat (nat i))"

text \<open>
  \<^verbatim>\<open>int(s)\<close> on a string, base 10: white space around the literal is dropped, then an
  optional sign and at least one decimal digit must make up all of it; anything else is a
  \<^verbatim>\<open>ValueError\<close> (\<open>None\<close>).
\<close>

definition is_py_space :: "char \<Rightarrow> bool" where
  "is_py_space c = ((of_char c :: nat) \<in> set [32, 9, 10, 11, 12, 13])"

definition strip :: "string \<Rightarrow> string" where
  "strip s = rev (dropWhile is_py_space (rev (dropWhile is_py_space s)))"

definition is_digit :: "char \<Rightarrow> bool" where
  "is_digit c = (let n = (of_char c :: nat) in 48 \<le> n \<and> n \<le> 57)"

definition digits_value :: "string \<Rightarrow> nat" where
  "digits_value ds = foldl (\<lambda>acc c. 10 * acc + ((of_char c :: nat) - 48)) 0 ds"

definition py_int_of_string :: "string \<Rightarrow> int option" where
  "py_int_of_string s =
     (let t = strip s;
          neg = (case t of c # r \<Rightarrow> c = CHR ''-'' | [] \<Rightarrow> False);
          ds = (case t of c # r \<Rightarrow> if c = CHR ''-'' \<or> c = CHR ''+'' then r else t | [] \<Rightarrow> [])
      in if ds \<noteq> [] \<and> list_all is_digit ds
         then Some (if neg then - int (digits_value ds) else int (digits_value ds))
         else None)"

text \<open>\<^verbatim>\<open>int(x)\<close> on a value: \<^verbatim>\<open>TypeError\<close> for \<^verbatim>\<open>None\<close> and containers.\<close>

fun py_int :: "pyval \<Rightarrow> int outcome" where
  "py_int (PInt n) = Return n"
| "py_int (PBool b) = Return (if b then 1 else 0)"
| "py_int (PStr s) = (case py_int_of_string s of None \<Rightarrow> Raise ValueError | Some n \<Rightarrow> Return n)"
| "py_int v = Raise TypeError"

text \<open>\<^verbatim>\<open>str(x)\<close>; the text of a container is the environment's.\<close>

fun py_str :: "env \<Rightarrow> pyval \<Rightarrow> string" where
  "py_str env (PStr s) = s"
| "py_str env PNone = ''None''"
| "py_str env (PBool b) = (if b then ''True'' else ''False'')"
| "py_str env (PInt n) = str_of_int n"
| "py_str env v = repr_container env v"

text \<open>\<^verbatim>\<open>x.get(k, default)\<close>: only a dictionary has the method.\<close>

fun py_get :: "pyval \<Rightarrow> string \<Rightarrow> pyval \<Rightarrow> pyval outcome" where
  "py_get (PDict d) k dflt = Return (dict_get d k dflt)"
| "py_get v k dflt = Raise AttributeError"

text \<open>Sequencing of calls that may raise or exit.\<close>

fun obind :: "'a outcome \<Rightarrow> ('a \<Rightarrow> 'b outcome) \<Rightarrow> 'b outcome" where
  "obind (Return x) f = f x"
| "obind (Raise e) f = Raise e"
| "obind Exit f = Exit"

text \<open>
  The recurring step \<^verbatim>\<open>if 'error' in res: return res\<close>, followed by the rest of the
  function: without and with the world.
\<close>

definition unless_error :: "pyval \<Rightarrow> pyval outcome \<Rightarrow> pyval outcome" where
  "unless_error res rest = obind (py_in ''error'' res) (\<lambda>b. if b then Return res else rest)"

definition unless_error_w ::
    "pyval \<Rightarrow> world \<Rightarrow> (pyval outcome \<times> world) \<Rightarrow> pyval outcome \<times> world" where
  "unless_error_w res w rest =
     (case py_in ''error'' res of
        Return b \<Rightarrow> if b then (Return res, w) else rest
      | Raise e \<Rightarrow> (Raise e, w)
      | Exit \<Rightarrow> (Exit, w))"

section \<open>Fetching the wallet\<close>

definition ECONNREFUSED :: nat where
  "ECONNREFUSED = 111"

text \<open>
  \<^verbatim>\<open>get_wallet_with_backoff\<close>: the loop \<^verbatim>\<open>for i in range(3)\<close>. The loop function walks the
  values of the range that are left; its second argument is the current value of the
  variable \<^verbatim>\<open>i\<close>, which Python leaves at the last value of the range when the loop ends.
  A result \<open>Some out\<close> is a \<^verbatim>\<open>return\<close> or \<^verbatim>\<open>raise\<close> inside the loop, \<open>None\<close> is the loop running
  to its end.
\<close>

fun get_wallet_loop :: "env \<Rightarrow> nat list \<Rightarrow> nat \<Rightarrow> world \<Rightarrow> pyval outcome option \<times> nat \<times> world" where
  "get_wallet_loop env [] i w = (None, i, w)"
| "get_wallet_loop env (j # js) i w =
     (let w1 = w\<lparr>wallet_fetches := Suc (wallet_fetches w)\<rparr> in
      case get_wallet env (wallet_fetches w) of
        Return wallet_keys \<Rightarrow> (Some (Return wallet_keys), j, w1)
      | Raise (EnvironmentError errno) \<Rightarrow>
          if errno = ECONNREFUSED
          then get_wallet_loop env js j (w1\<lparr>sleeps := sleeps w1 @ [j + 1]\<rparr>)
          else (Some (Raise (EnvironmentError errno)), j, w1)
      | Raise e \<Rightarrow> (Some (Raise e), j, w1)
      | Exit \<Rightarrow> (Some Exit, j, w1))"

definition get_wallet_with_backoff :: "env \<Rightarrow> world \<Rightarrow> pyval outcome \<times> world" where
  "get_wallet_with_backoff env w =
     (case get_wallet_loop env [0..<3] 0 w of
        (Some out, i, w') \<Rightarrow> (out, w')
      | (None, i, w') \<Rightarrow>
          (Return (if i = 3 then error_result ''Failed to connect to API daemon'' else PNone), w'))"

section \<open>Names, wallet and preconditions\<close>

text \<open>\<^verbatim>\<open>check_valid_name\<close>: \<open>None\<close> for a valid name, else the reason as a string.\<close>

definition check_valid_name :: "env \<Rightarrow> string \<Rightarrow> string option" where
  "check_valid_name env fqu =
     (if is_name_valid env fqu then None
      else if CHR ''.'' \<notin> set fqu
      then Some (''The name specified is invalid. '' @
                 ''Names must end with a period followed by a valid TLD.'')
      else
        let name = hd (split_on CHR ''.'' fqu) in
        if name = []
        then Some (''The name specified is invalid. '' @
                   ''Names must be at least one character long, not including the TLD.'')
        else if \<not> is_b40 env name
        then Some (''The name specified is invalid. '' @
                   ''Names may only contain alphanumeric characters, '' @
                   ''dashes, and underscores.'')
        else Some ''The name is invalid'')"

text \<open>\<^verbatim>\<open>wallet_ensure_exists\<close> and \<^verbatim>\<open>get_wallet_keys\<close>.\<close>

definition wallet_ensure_exists :: "env \<Rightarrow> pyval outcome" where
  "wallet_ensure_exists env =
     (if \<not> wallet_exists env
      then unless_error (initialize_wallet env) (Return status_true)
      else Return status_true)"

definition get_wallet_keys :: "env \<Rightarrow> world \<Rightarrow> pyval outcome \<times> world" where
  "get_wallet_keys env w =
     (let unlock_and_fetch =
            (if \<not> is_wallet_unlocked env
             then unless_error_w (unlock_wallet env) w (get_wallet_with_backoff env w)
             else get_wallet_with_backoff env w)
      in if \<not> wallet_path_exists env
         then unless_error_w (initialize_wallet env) w unlock_and_fetch
         else unlock_and_fetch)"

definition MAXIMUM_NAMES_PER_ADDRESS :: nat where
  "MAXIMUM_NAMES_PER_ADDRESS = 25"

text \<open>
  Modelled from the spec: \<^verbatim>\<open>can_receive_name\<close> of \<^verbatim>\<open>backend/blockchain.py\<close>, which is not
  among the source files. The spec: the destination address must not already own more than
  the configured per-address name cap.
\<close>

definition can_receive_name :: "env \<Rightarrow> string \<Rightarrow> bool" where
  "can_receive_name env address =
     (length (get_names_owned_by_address env address) \<le> MAXIMUM_NAMES_PER_ADDRESS)"

text \<open>
  \<^verbatim>\<open>operation_sanity_check\<close>. \<open>transfer_address\<close> is \<open>None\<close> for every operation but a
  transfer. The fee estimators are asked about the name; \<^verbatim>\<open>'00' * APPROX_..._TX_LEN\<close> is
  the dummy transaction whose fee \<^verbatim>\<open>get_tx_fee\<close> computes when they give no estimate.
\<close>

definition operation_sanity_check ::
    "env \<Rightarrow> string \<Rightarrow> pyval \<Rightarrow> pyval \<Rightarrow> string option \<Rightarrow> pyval outcome" where
  "operation_sanity_check env fqu payment_privkey_info owner_privkey_info transfer_address =
     (if \<not> is_name_registered env fqu
      then Return (error_result (fqu @ '' is not registered yet.''))
      else
        case get_addresses_from_file env of (payment_address, owner_address, data_address) \<Rightarrow>
        if \<not> is_name_owner env fqu owner_address
        then Return (error_result (fqu @ '' is not in your possession.''))
        else
          let estimate_func = (case transfer_address of
                                 Some a \<Rightarrow> estimate_transfer_tx_fee env
                               | None \<Rightarrow> estimate_update_tx_fee env);
              approx_tx_fee = (case transfer_address of
                                 Some a \<Rightarrow> concat (replicate (APPROX_TRANSFER_TX_LEN env) ''00'')
                               | None \<Rightarrow> concat (replicate (APPROX_UPDATE_TX_LEN env) ''00''))
          in obind (estimate_func fqu) (\<lambda>estimate.
             case (case estimate of
                     None \<Rightarrow> get_tx_fee env approx_tx_fee
                   | Some fee \<Rightarrow> Some fee) of
               None \<Rightarrow> Return (error_result ''Failed to get fee estimate'')
             | Some tx_fee \<Rightarrow>
                 (case get_balance env payment_address of
                    None \<Rightarrow> Return (error_result ''Failed to get balance'')
                  | Some balance \<Rightarrow>
                      if balance < tx_fee
                      then Return (error_result (''Address '' @ payment_address @
                             '' does not have a sufficient balance (need '' @
                             str_of_int balance @ '').''))
                      else if \<not> is_address_usable env payment_address
                      then Return (error_result (''Address '' @ payment_address @
                             '' has insufficiently confirmed transactions. Wait and try later.''))
                      else
                        (case transfer_address of
                           None \<Rightarrow> Return status_true
                         | Some address \<Rightarrow>
                             if is_b58check_address_raises env address
                             then Return (error_result (''Address '' @ address @
                                    '' is not a valid Bitcoin address.''))
                             else if \<not> can_receive_name env address
                             then Return (error_result (''Address '' @ address @
                                    '' owns too many names already.''))
                             else Return status_true))))"

text \<open>
  \<^verbatim>\<open>get_total_registration_fees\<close>. \<open>fee_or_fallback\<close> is one of the three estimates of
  the \<^verbatim>\<open>try\<close> block: the estimator's answer, or \<^verbatim>\<open>get_tx_fee\<close> on the dummy transaction
  together with the flag \<^verbatim>\<open>insufficient_funds\<close> when the estimator answered \<^verbatim>\<open>None\<close>. The
  fallback may itself be \<^verbatim>\<open>None\<close>; \<^verbatim>\<open>int(None)\<close> after the block is a \<^verbatim>\<open>TypeError\<close>.
  \<open>registration_estimates\<close> is the \<^verbatim>\<open>try\<close> block, \<open>registration_reply\<close> the code after it.
\<close>

definition fee_or_fallback :: "env \<Rightarrow> int option \<Rightarrow> nat \<Rightarrow> int option \<times> bool" where
  "fee_or_fallback env estimate approx_len =
     (case estimate of
        Some fee \<Rightarrow> (Some fee, False)
      | None \<Rightarrow> (get_tx_fee env (concat (replicate approx_len ''00'')), True))"

definition int_of_fee :: "int option \<Rightarrow> int outcome" where
  "int_of_fee fee = (case fee of None \<Rightarrow> Raise TypeError | Some n \<Rightarrow> Return n)"

definition registration_estimates ::
    "env \<Rightarrow> string \<Rightarrow> ((int option \<times> bool) \<times> (int option \<times> bool) \<times> (int option \<times> bool)) outcome" where
  "registration_estimates env name =
     obind (estimate_preorder_tx_fee env name) (\<lambda>pre.
     obind (estimate_register_tx_fee env name) (\<lambda>reg.
     obind (estimate_update_tx_fee env name) (\<lambda>upd.
       Return (fee_or_fallback env pre (APPROX_PREORDER_TX_LEN env),
               fee_or_fallback env reg (APPROX_REGISTER_TX_LEN env),
               fee_or_fallback env upd (APPROX_UPDATE_TX_LEN env)))))"

definition registration_reply ::
    "pyval \<Rightarrow> pyval \<Rightarrow> (int option \<times> bool) \<Rightarrow> (int option \<times> bool) \<Rightarrow> (int option \<times> bool) \<Rightarrow>
     pyval outcome" where
  "registration_reply payment_privkey_info name_price pre reg upd =
     obind (int_of_fee (fst pre)) (\<lambda>preorder_tx_fee.
     obind (int_of_fee (fst reg)) (\<lambda>register_tx_fee.
     obind (int_of_fee (fst upd)) (\<lambda>update_tx_fee.
     obind (py_int name_price) (\<lambda>price.
       let insufficient_funds = (snd pre \<or> snd reg \<or> snd upd);
           reply = [(''name_price'', name_price),
                    (''preorder_tx_fee'', PInt preorder_tx_fee),
                    (''register_tx_fee'', PInt register_tx_fee),
                    (''update_tx_fee'', PInt update_tx_fee),
                    (''total_estimated_cost'',
                     PInt (price + preorder_tx_fee + register_tx_fee + update_tx_fee))]
       in Return (PDict (reply @
            (if payment_privkey_info = PNone
             then [(''warnings'', PList [PStr ''Wallet not accessed; fees are rough estimates.''])]
             else if insufficient_funds
             then [(''warnings'', PList [PStr ''Insufficient funds; fees are rough estimates.''])]
             else [])))))))"

definition get_total_registration_fees :: "env \<Rightarrow> string \<Rightarrow> pyval \<Rightarrow> pyval \<Rightarrow> pyval outcome" where
  "get_total_registration_fees env name payment_privkey_info owner_privkey_info =
     (case get_name_cost env name of
        None \<Rightarrow> Return (error_result ''Could not connect to server'')
      | Some data \<Rightarrow>
          obind (py_in ''error'' data) (\<lambda>failed.
            if failed
            then obind (py_item data ''error'') (\<lambda>e.
                   Return (error_result (''Could not determine price of name: '' @ py_str env e)))
            else
              obind (py_item data ''satoshis'') (\<lambda>name_price.
                case registration_estimates env name of
                  Raise e \<Rightarrow>
                    if e = UTXOException
                    then Return (error_result ''Failed to query UTXO provider.  Please try again.'')
                    else Raise e
                | Exit \<Rightarrow> Exit
                | Return (pre, reg, upd) \<Rightarrow>
                    registration_reply payment_privkey_info name_price pre reg upd)))"

section \<open>Loading a zonefile\<close>

text \<open>
  Modelled from the spec: \<^verbatim>\<open>is_zonefile_current\<close> of \<^verbatim>\<open>proxy.py\<close>, which is not among the
  source files. The spec: the zonefile is identical when its hash equals the name's current
  on-chain \<^verbatim>\<open>value_hash\<close>. \<open>current_value_hash\<close> reads that field from the name's record.
\<close>

definition current_value_hash :: "env \<Rightarrow> string \<Rightarrow> pyval option" where
  "current_value_hash env fqu =
     (case get_name_blockchain_record env fqu of
        Some (PDict d) \<Rightarrow> map_of d ''value_hash''
      | _ \<Rightarrow> None)"

definition is_zonefile_current :: "env \<Rightarrow> string \<Rightarrow> pyval \<Rightarrow> bool" where
  "is_zonefile_current env fqu user_data =
     (current_value_hash env fqu = Some (PStr (hash_zonefile env user_data)))"

text \<open>
  \<^verbatim>\<open>load_zonefile\<close>. \<open>decode_zonefile\<close> is the first \<^verbatim>\<open>try\<close> block: the payload as JSON, or
  else as zone-file text; \<open>None\<close> when both parsers raise. \<open>ttl_is_valid\<close> is the last
  \<^verbatim>\<open>try\<close> block, which catches every exception of \<^verbatim>\<open>int(user_data['$ttl'])\<close> and of the
  assertion.
\<close>

definition decode_zonefile :: "env \<Rightarrow> string \<Rightarrow> pyval option" where
  "decode_zonefile env user_data =
     (case json_loads env user_data of
        Some v \<Rightarrow> Some v
      | None \<Rightarrow> (case parse_zone_file env user_data of
                   Some d \<Rightarrow> Some (PDict d)
                 | None \<Rightarrow> None))"

definition ttl_is_valid :: "pyval \<Rightarrow> bool" where
  "ttl_is_valid user_data =
     (case obind (py_item user_data ''$ttl'') py_int of
        Return ttl \<Rightarrow> ttl \<ge> 0
      | Raise e \<Rightarrow> False
      | Exit \<Rightarrow> False)"

definition identical_msg :: string where
  "identical_msg = ''Zonefile data is same as current zonefile; update not needed.''"

definition load_zonefile :: "env \<Rightarrow> string \<Rightarrow> pyval \<Rightarrow> bool \<Rightarrow> pyval outcome" where
  "load_zonefile env fqu zonefile_data check_current =
     (case decode_zonefile env (py_str env zonefile_data) of
        None \<Rightarrow> Return (error_result ''Zonefile data is invalid.'')
      | Some user_data \<Rightarrow>
          (case make_zone_file env user_data of
             None \<Rightarrow> Return (error_result (''Invalid zonefile'' @ [CHR 0x0A] @ format_exc env))
           | Some user_zonefile \<Rightarrow>
               obind (py_get user_data ''$origin'' (PStr [])) (\<lambda>origin.
                 if PStr fqu \<noteq> origin
                 then Return (error_result ''Invalid $origin; must use your name'')
                 else obind (py_in ''$ttl'' user_data) (\<lambda>has_ttl.
                   if \<not> has_ttl
                   then Return (error_result ''Missing $ttl; please supply a positive integer'')
                   else if \<not> is_user_zonefile env user_data
                   then Return (error_result
                          ''Zonefile is missing or has invalid URI and/or TXT records'')
                   else if \<not> ttl_is_valid user_data
                   then Return (error_result ''Invalid $ttl; must be a positive integer'')
                   else if check_current \<and> is_zonefile_current env fqu user_data
                   then Return (PDict [(''error'', PStr identical_msg),
                                       (''identical'', PBool True),
                                       (''zonefile'', PStr user_zonefile)])
                   else Return (PDict [(''status'', PBool True),
                                       (''zonefile'', PStr user_zonefile)])))))"

section \<open>Read-only commands\<close>

definition revoked_msg :: string where
  "revoked_msg = ''Name is revoked. Use get_name_blockchain_record for details.''"

text \<open>
  \<^verbatim>\<open>cli_lookup\<close>. \<open>lookup_profile\<close> is the \<^verbatim>\<open>try\<close> block around \<^verbatim>\<open>get_name_profile\<close>, whose
  \<^verbatim>\<open>except Exception\<close> turns every exception into an error result. The analytics event sent
  at the end of a successful command has no part in the result and is left out, here and in
  the other commands.
\<close>

definition lookup_failed :: "env \<Rightarrow> pyval" where
  "lookup_failed env = error_result (''Failed to look up name'' @ [CHR 0x0A] @ format_exc env)"

definition lookup_profile :: "env \<Rightarrow> string \<Rightarrow> pyval" where
  "lookup_profile env fqu =
     (case get_name_profile env fqu of
        None \<Rightarrow> lookup_failed env
      | Some (user_profile, user_zonefile) \<Rightarrow>
          (case user_zonefile of
             PDict d \<Rightarrow>
               if has_key d ''error'' then user_zonefile
               else (case map_of d ''raw_zonefile'' of
                       None \<Rightarrow> lookup_failed env
                     | Some raw \<Rightarrow> PDict [(''profile'', user_profile), (''zonefile'', raw)])
           | _ \<Rightarrow> lookup_failed env))"

definition cli_lookup :: "env \<Rightarrow> args \<Rightarrow> pyval outcome" where
  "cli_lookup env args =
     (let fqu = arg_name args in
      case check_valid_name env fqu of
        Some error \<Rightarrow> Return (error_result error)
      | None \<Rightarrow>
          (case get_name_blockchain_record env fqu of
             None \<Rightarrow> Return (error_result ''Error connecting to server.'')
           | Some blockchain_record \<Rightarrow>
               unless_error blockchain_record
                 (obind (py_in ''value_hash'' blockchain_record) (\<lambda>has_hash.
                    if \<not> has_hash
                    then Return (error_result (fqu @ '' has no profile''))
                    else obind (py_get blockchain_record ''revoked'' (PBool False)) (\<lambda>revoked.
                      if truthy revoked
                      then Return (error_result revoked_msg)
                      else Return (lookup_profile env fqu))))))"

text \<open>
  \<^verbatim>\<open>cli_whois\<close>. \<open>update_heights_of\<close> is the \<^verbatim>\<open>try\<close> block on the history: the sorted block
  heights, \<open>None\<close> when the history is not a dictionary or a key is not a number. A socket
  error of the record query ends the process (\<^verbatim>\<open>exit_with_error\<close>).
\<close>

definition update_heights_of :: "pyval \<Rightarrow> int list option" where
  "update_heights_of history =
     (case history of
        PDict d \<Rightarrow>
          (let ks = map py_int_of_string (remdups (map fst d)) in
           if list_all (\<lambda>k. k \<noteq> None) ks then Some (sort (map the ks)) else None)
      | _ \<Rightarrow> None)"

definition whois_result :: "pyval \<Rightarrow> int list \<Rightarrow> pyval outcome" where
  "whois_result record update_heights =
     obind (py_item record ''preorder_block_number'') (\<lambda>preorder_block_number.
     obind (py_item record ''last_renewed'') (\<lambda>last_renewed.
     obind (py_item record ''txid'') (\<lambda>txid.
     obind (py_item record ''address'') (\<lambda>address.
     obind (py_item record ''sender'') (\<lambda>sender.
     obind (py_get record ''value_hash'' PNone) (\<lambda>value_hash.
     obind (py_get record ''expired_block'' PNone) (\<lambda>expire_block.
       Return (PDict (
         [(''block_preordered_at'', preorder_block_number),
          (''block_renewed_at'', last_renewed),
          (''last_transaction_id'', txid),
          (''owner_address'', address),
          (''owner_script'', sender)] @
         (if value_hash \<in> set [PNone, PStr ''null'', PStr []]
          then [(''has_zonefile'', PBool False)]
          else [(''has_zonefile'', PBool True), (''zonefile_hash'', value_hash)]) @
         (if update_heights = [] then []
          else [(''last_transaction_height'', PInt (last update_heights))]) @
         (if expire_block = PNone then [] else [(''expire_block'', expire_block)]))))))))))"

definition cli_whois :: "env \<Rightarrow> args \<Rightarrow> pyval outcome" where
  "cli_whois env args =
     (let fqu = arg_name args in
      case check_valid_name env fqu of
        Some error \<Rightarrow> Return (error_result error)
      | None \<Rightarrow>
          (case get_name_blockchain_record env fqu of
             None \<Rightarrow> Exit
           | Some record \<Rightarrow>
               unless_error record
                 (obind (py_get record ''revoked'' (PBool False)) (\<lambda>revoked.
                    if truthy revoked
                    then Return (error_result revoked_msg)
                    else obind (py_get record ''history'' (PDict [])) (\<lambda>history.
                      case update_heights_of history of
                        None \<Rightarrow> Return (error_result ''Invalid record data returned'')
                      | Some update_heights \<Rightarrow> whois_result record update_heights)))))"

text \<open>
  \<^verbatim>\<open>cli_consensus\<close>. The dictionary display of the reply reads \<^verbatim>\<open>resp['consensns_hash']\<close>
  first, then \<^verbatim>\<open>resp['last_block_processed']\<close>.
\<close>

definition cli_consensus :: "env \<Rightarrow> args \<Rightarrow> pyval outcome" where
  "cli_consensus env args =
     (case arg_block_height args of
        None \<Rightarrow>
          (let resp = getinfo env in
           unless_error resp
             (obind (py_in ''last_block_processed'' resp) (\<lambda>has_block.
              obind (if has_block then py_in ''consensus_hash'' resp else Return False) (\<lambda>both.
                if both
                then obind (py_item resp ''consensns_hash'') (\<lambda>consensus.
                     obind (py_item resp ''last_block_processed'') (\<lambda>block_height.
                       Return (PDict [(''consensus'', consensus),
                                      (''block_height'', block_height)])))
                else Return (error_result ''Server is indexing.  Try again shortly.'')))))
      | Some block_height \<Rightarrow>
          Return (PDict [(''consensus'', get_consensus_at env block_height),
                         (''block_height'', PInt block_height)]))"

section \<open>Revealing a namespace\<close>

text \<open>
  \<^verbatim>\<open>cli_namespace_reveal\<close>. \<open>check_bucket_exponents\<close> is the loop that replaces each field by
  its integer; \<open>None\<close> is the \<^verbatim>\<open>return\<close> in its \<^verbatim>\<open>except\<close> branch. After the loop the remaining
  numbers are converted (a \<^verbatim>\<open>ValueError\<close> is not caught there) and the reveal is called.
\<close>

fun check_bucket_exponents :: "string list \<Rightarrow> int list option" where
  "check_bucket_exponents [] = Some []"
| "check_bucket_exponents (b # bs) =
     (case py_int_of_string b of
        None \<Rightarrow> None
      | Some n \<Rightarrow>
          if 0 \<le> n \<and> n < 16
          then (case check_bucket_exponents bs of
                  None \<Rightarrow> None
                | Some ns \<Rightarrow> Some (n # ns))
          else None)"

definition int_arg :: "string \<Rightarrow> int outcome" where
  "int_arg s = (case py_int_of_string s of None \<Rightarrow> Raise ValueError | Some n \<Rightarrow> Return n)"

definition cli_namespace_reveal :: "env \<Rightarrow> args \<Rightarrow> world \<Rightarrow> pyval outcome \<times> world" where
  "cli_namespace_reveal env args w =
     (let bucket_exponents = split_on CHR '','' (arg_bucket_exponents args) in
      if length bucket_exponents \<noteq> 16
      then (Return (error_result ''`bucket_exponents` must be a 16-value CSV of integers''), w)
      else
        case check_bucket_exponents bucket_exponents of
          None \<Rightarrow>
            (Return (error_result
               ''`bucket_exponents` must contain integers between 0 and 15, inclusively.''), w)
        | Some exponents \<Rightarrow>
            (case int_arg (arg_lifetime args) of
               Raise e \<Rightarrow> (Raise e, w)
             | Exit \<Rightarrow> (Exit, w)
             | Return lt \<Rightarrow>
                 (let lifetime = (if lt < 0 then 0xffffffff else lt) in
                  case namespace_reveal env of
                    None \<Rightarrow> (Raise (NameError ''namespace_reveal''), w)
                  | Some reveal \<Rightarrow>
                      (case obind (int_arg (arg_coeff args)) (\<lambda>coeff.
                            obind (int_arg (arg_base args)) (\<lambda>base.
                            obind (int_arg (arg_nonalpha_discount args)) (\<lambda>nonalpha_discount.
                            obind (int_arg (arg_no_vowel_discount args)) (\<lambda>no_vowel_discount.
                              Return (Namespace_reveal (arg_namespace_id args) (arg_addr args)
                                        lifetime coeff base exponents
                                        nonalpha_discount no_vowel_discount
                                        (arg_privatekey args)))))) of
                         Raise e \<Rightarrow> (Raise e, w)
                       | Exit \<Rightarrow> (Exit, w)
                       | Return c \<Rightarrow> (Return (reveal c), w\<lparr>calls := calls w @ [c]\<rparr>)))))"

section \<open>Commands that change a name\<close>

text \<open>
  A command is a sequence of steps on the world. A step either ends the command (\<open>Inl\<close>: a
  \<^verbatim>\<open>return\<close>, an uncaught exception or the end of the process) or hands a value to the next
  step (\<open>Inr\<close>). \<open>finish\<close> runs a command whose last value is what it returns.
\<close>

type_synonym 'a cmd = "world \<Rightarrow> (pyval outcome + 'a) \<times> world"

definition cbind :: "'a cmd \<Rightarrow> ('a \<Rightarrow> 'b cmd) \<Rightarrow> 'b cmd" where
  "cbind m f w = (case m w of (Inl out, w1) \<Rightarrow> (Inl out, w1) | (Inr x, w1) \<Rightarrow> f x w1)"

definition continue :: "'a \<Rightarrow> 'a cmd" where
  "continue x w = (Inr x, w)"

definition return_now :: "pyval \<Rightarrow> 'a cmd" where
  "return_now v w = (Inl (Return v), w)"

definition raise_now :: "exc \<Rightarrow> 'a cmd" where
  "raise_now e w = (Inl (Raise e), w)"

definition exit_now :: "'a cmd" where
  "exit_now w = (Inl Exit, w)"

definition step_of :: "'a outcome \<Rightarrow> 'a cmd" where
  "step_of out w =
     (case out of
        Return x \<Rightarrow> (Inr x, w)
      | Raise e \<Rightarrow> (Inl (Raise e), w)
      | Exit \<Rightarrow> (Inl Exit, w))"

definition finish :: "pyval cmd \<Rightarrow> world \<Rightarrow> pyval outcome \<times> world" where
  "finish m w = (case m w of (Inl out, w1) \<Rightarrow> (out, w1) | (Inr v, w1) \<Rightarrow> (Return v, w1))"

text \<open>\<^verbatim>\<open>if 'error' in res: return res\<close> as a step.\<close>

definition return_if_error :: "pyval \<Rightarrow> unit cmd" where
  "return_if_error res =
     cbind (step_of (py_in ''error'' res)) (\<lambda>b. if b then return_now res else continue ())"

text \<open>\<^verbatim>\<open>error = check_valid_name(fqu); if error: return {'error': error}\<close> as a step.\<close>

definition valid_name_step :: "env \<Rightarrow> string \<Rightarrow> unit cmd" where
  "valid_name_step env fqu =
     (case check_valid_name env fqu of
        Some error \<Rightarrow> return_now (error_result error)
      | None \<Rightarrow> continue ())"

text \<open>\<^verbatim>\<open>wallet_keys = get_wallet_keys(...); if 'error' in wallet_keys: return wallet_keys\<close>.\<close>

definition wallet_keys_step :: "env \<Rightarrow> pyval cmd" where
  "wallet_keys_step env =
     cbind (\<lambda>w. case get_wallet_keys env w of (out, w1) \<Rightarrow> step_of out w1) (\<lambda>wallet_keys.
     cbind (return_if_error wallet_keys) (\<lambda>_. continue wallet_keys))"

text \<open>
  The handling of the daemon's reply that ends every one of these commands.
  \<open>fallthrough\<close> is the final \<^verbatim>\<open>return result\<close>: the variable is bound only in
  \<^verbatim>\<open>cli_revoke\<close>.
\<close>

definition backend_reply :: "pyval \<Rightarrow> pyval outcome \<Rightarrow> pyval outcome" where
  "backend_reply resp fallthrough =
     obind (py_in ''success'' resp) (\<lambda>has_success.
     obind (if has_success then obind (py_item resp ''success'') (\<lambda>v. Return (truthy v))
            else Return False) (\<lambda>success.
       if success then Return resp
       else obind (py_in ''error'' resp) (\<lambda>has_error.
         if has_error then Return resp
         else obind (py_in ''message'' resp) (\<lambda>has_message.
           if has_message
           then obind (py_item resp ''message'') (\<lambda>m. Return (PDict [(''error'', m)]))
           else fallthrough))))"

text \<open>
  The \<^verbatim>\<open>try\<close> block around a \<^verbatim>\<open>rpc.backend_*\<close> call and the reply handling after it. The call
  is recorded and the daemon's new queue installed, whatever the reply.
\<close>

definition backend_step :: "env \<Rightarrow> call \<Rightarrow> pyval outcome \<Rightarrow> 'a cmd" where
  "backend_step env c fallthrough w =
     (case backend env c (queue w) of (reply, q) \<Rightarrow>
        (let w1 = w\<lparr>queue := q, calls := calls w @ [c]\<rparr> in
         (case reply of
            None \<Rightarrow> (Inl (Return (error_result ''Error talking to server, try again.'')), w1)
          | Some resp \<Rightarrow> (Inl (backend_reply resp fallthrough), w1))))"

text \<open>The owner and payment keys of the wallet, read in the order of the command.\<close>

definition owner_then_payment :: "pyval \<Rightarrow> (pyval \<times> pyval) cmd" where
  "owner_then_payment wallet_keys =
     cbind (step_of (py_item wallet_keys ''owner_privkey'')) (\<lambda>owner_privkey_info.
     cbind (step_of (py_item wallet_keys ''payment_privkey'')) (\<lambda>payment_privkey_info.
       continue (payment_privkey_info, owner_privkey_info)))"

definition payment_then_owner :: "pyval \<Rightarrow> (pyval \<times> pyval) cmd" where
  "payment_then_owner wallet_keys =
     cbind (step_of (py_item wallet_keys ''payment_privkey'')) (\<lambda>payment_privkey_info.
     cbind (step_of (py_item wallet_keys ''owner_privkey'')) (\<lambda>owner_privkey_info.
       continue (payment_privkey_info, owner_privkey_info)))"

text \<open>
  \<^verbatim>\<open>res = operation_sanity_check(...); if 'error' in res: return res\<close>, the step every one
  of these commands takes before it talks to the daemon.
\<close>

definition sanity_check_step :: "env \<Rightarrow> string \<Rightarrow> pyval \<Rightarrow> pyval \<Rightarrow> string option \<Rightarrow> unit cmd" where
  "sanity_check_step env fqu payment_privkey_info owner_privkey_info transfer_address =
     cbind (step_of (operation_sanity_check env fqu payment_privkey_info owner_privkey_info
                       transfer_address))
       return_if_error"

text \<open>\<^verbatim>\<open>prompt_invalid_zonefile\<close>: the answer is yes when it is \<^verbatim>\<open>y\<close> in either case.\<close>

definition prompt_invalid_zonefile :: "env \<Rightarrow> bool cmd" where
  "prompt_invalid_zonefile env =
     (case raw_input env of
        None \<Rightarrow> raise_now KeyboardInterrupt
      | Some proceed \<Rightarrow> continue (lower proceed \<in> set [''y'']))"

subsection \<open>Transfer\<close>

text \<open>
  \<^verbatim>\<open>cli_transfer\<close>. \<open>cli_transfer_prepare\<close> is the function up to the call of
  \<^verbatim>\<open>operation_sanity_check\<close>; it yields the payment and the owner key of the wallet, which
  that call takes. The other commands are split in the same way.
\<close>

definition cli_transfer_prepare :: "env \<Rightarrow> args \<Rightarrow> (pyval \<times> pyval) cmd" where
  "cli_transfer_prepare env args =
     cbind (step_of (wallet_ensure_exists env)) (\<lambda>res.
     cbind (return_if_error res) (\<lambda>_.
     cbind (return_if_error (start_rpc_endpoint env)) (\<lambda>_.
     cbind (wallet_keys_step env) (\<lambda>_.
     cbind (valid_name_step env (arg_name args)) (\<lambda>_.
     cbind (wallet_keys_step env) (\<lambda>wallet_keys.
       payment_then_owner wallet_keys))))))"

definition cli_transfer :: "env \<Rightarrow> args \<Rightarrow> world \<Rightarrow> pyval outcome \<times> world" where
  "cli_transfer env args =
     finish
       (cbind (cli_transfer_prepare env args) (\<lambda>(payment_privkey_info, owner_privkey_info).
        cbind (sanity_check_step env (arg_name args) payment_privkey_info owner_privkey_info
                 (Some (arg_address args))) (\<lambda>_.
          backend_step env (Backend_transfer (arg_name args) (arg_address args))
            (Raise (UnboundLocalError ''result'')))))"

subsection \<open>Revoke\<close>

text \<open>
  \<^verbatim>\<open>cli_revoke\<close>. After the sanity check an interactive run asks for confirmation;
  anything but \<^verbatim>\<open>y\<close>, or a keyboard interrupt, ends the process.
\<close>

definition cli_revoke_prepare :: "env \<Rightarrow> args \<Rightarrow> (pyval \<times> pyval) cmd" where
  "cli_revoke_prepare env args =
     cbind (step_of (wallet_ensure_exists env)) (\<lambda>res.
     cbind (return_if_error res) (\<lambda>_.
     cbind (return_if_error (start_rpc_endpoint env)) (\<lambda>_.
     cbind (valid_name_step env (arg_name args)) (\<lambda>_.
       if \<not> is_name_registered env (arg_name args)
       then return_now (error_result (arg_name args @ '' does not exist.''))
       else
         cbind (wallet_keys_step env) (\<lambda>wallet_keys.
           owner_then_payment wallet_keys)))))"

definition confirm_revoke :: "env \<Rightarrow> bool \<Rightarrow> unit cmd" where
  "confirm_revoke env interactive =
     (if interactive
      then (case raw_input env of
              None \<Rightarrow> exit_now
            | Some user_input \<Rightarrow> if lower user_input \<noteq> ''y'' then exit_now else continue ())
      else continue ())"

definition cli_revoke :: "env \<Rightarrow> args \<Rightarrow> bool \<Rightarrow> world \<Rightarrow> pyval outcome \<times> world" where
  "cli_revoke env args interactive =
     finish
       (cbind (cli_revoke_prepare env args) (\<lambda>(payment_privkey_info, owner_privkey_info).
        cbind (sanity_check_step env (arg_name args) payment_privkey_info owner_privkey_info
                 None) (\<lambda>_.
        cbind (confirm_revoke env interactive) (\<lambda>_.
          backend_step env (Backend_revoke (arg_name args)) (Return (PDict []))))))"

subsection \<open>Update\<close>

text \<open>
  \<^verbatim>\<open>cli_update\<close>. The flag \<^verbatim>\<open>nonstandard\<close> that the function computes from its arguments is
  never read afterwards and is left out. \<open>cli_update_setup\<close> is the function up to the
  call of \<^verbatim>\<open>load_zonefile\<close>, \<open>cli_update_prepare\<close> the function up to the call of
  \<^verbatim>\<open>operation_sanity_check\<close>. \<open>update_read_file\<close> replaces the argument by the
  content of the file it names, when it names one. \<open>update_fetch_remote\<close> asks the storage
  for the current zonefile when none was given. \<open>update_load\<close> validates the zonefile and
  yields the text and the hash to send.
\<close>

definition is_valid_path :: "string option \<Rightarrow> bool" where
  "is_valid_path path = (case path of None \<Rightarrow> False | Some p \<Rightarrow> CHR 0x00 \<notin> set p)"

definition update_read_file :: "env \<Rightarrow> string option \<Rightarrow> pyval cmd" where
  "update_read_file env zonefile_data =
     (case zonefile_data of
        None \<Rightarrow> continue PNone
      | Some path \<Rightarrow>
          if is_valid_path zonefile_data \<and> path_exists env path
          then (case read_file env path of
                  None \<Rightarrow> return_now (error_result (''Failed to read \"'' @ path @ ''\"''))
                | Some content \<Rightarrow> continue (PStr content))
          else continue (PStr path))"

definition update_fetch_remote :: "env \<Rightarrow> string \<Rightarrow> pyval \<Rightarrow> pyval cmd" where
  "update_fetch_remote env fqu zonefile_data =
     (if zonefile_data = PNone
      then
        (let fetched = get_name_zonefile env fqu False;
             zonefile_data_res = (if fetched = PNone then error_result ''No zonefile'' else fetched)
         in cbind (step_of (py_in ''error'' zonefile_data_res)) (\<lambda>failed.
              if \<not> failed then step_of (py_item zonefile_data_res ''zonefile'')
              else continue PNone))
      else continue zonefile_data)"

definition parse_serialized :: "env \<Rightarrow> pyval \<Rightarrow> unit cmd" where
  "parse_serialized env zonefile =
     (case zonefile of
        PStr txt \<Rightarrow> (case parse_zone_file env txt of
                      None \<Rightarrow> raise_now (OtherException ''parse_zone_file'')
                    | Some d \<Rightarrow> continue ())
      | _ \<Rightarrow> raise_now TypeError)"

definition update_load :: "env \<Rightarrow> string \<Rightarrow> bool \<Rightarrow> pyval \<Rightarrow> (pyval \<times> pyval) cmd" where
  "update_load env fqu interactive zonefile_data =
     cbind (step_of (load_zonefile env fqu zonefile_data True)) (\<lambda>user_data_res.
     cbind (step_of (py_in ''error'' user_data_res)) (\<lambda>failed.
       if \<not> failed
       then
         cbind (step_of (py_item user_data_res ''zonefile'')) (\<lambda>user_data_txt.
         cbind (parse_serialized env user_data_txt) (\<lambda>_.
           continue (user_data_txt, PStr (get_zonefile_data_hash env user_data_txt))))
       else
         cbind (step_of (py_in ''identical'' user_data_res)) (\<lambda>identical.
           if identical
           then return_now (error_result ''Zonefile matches the current name hash; not updating.'')
           else if \<not> interactive
           then (if zonefile_data = PNone
                 then return_now (error_result ''Zone file not updated (invalid)'')
                 else (case allow_invalid_zonefile env of
                         None \<Rightarrow> raise_now (NameError ''allow_invalid_zonefile'')
                       | Some allowed \<Rightarrow>
                           return_now (error_result ''Zone file not updated (invalid)'')))
           else if zonefile_data \<noteq> PNone
           then
             cbind (prompt_invalid_zonefile env) (\<lambda>proceed.
               if \<not> proceed
               then cbind (step_of (py_item user_data_res ''error'')) (\<lambda>reason.
                      return_now (error_result
                        (''Zone file not updated (reason: '' @ py_str env reason @ '')'')))
               else continue (zonefile_data, PStr (get_zonefile_data_hash env zonefile_data)))
           else continue (PNone, PNone))))"

definition cli_update_setup :: "env \<Rightarrow> args \<Rightarrow> bool \<Rightarrow> (pyval \<times> pyval) cmd" where
  "cli_update_setup env args interactive =
     (if \<not> interactive \<and> arg_data args = None
      then return_now (error_result ''Zone file data required in non-interactive mode'')
      else
        cbind (step_of (wallet_ensure_exists env)) (\<lambda>res.
        cbind (return_if_error res) (\<lambda>_.
        cbind (return_if_error (start_rpc_endpoint env)) (\<lambda>_.
        cbind (valid_name_step env (arg_name args)) (\<lambda>_.
        cbind (update_read_file env (arg_data args)) (\<lambda>zonefile_data.
        cbind (wallet_keys_step env) (\<lambda>wallet_keys.
        cbind (update_fetch_remote env (arg_name args) zonefile_data) (\<lambda>zonefile_data.
          continue (wallet_keys, zonefile_data)))))))))"

definition cli_update_prepare ::
    "env \<Rightarrow> args \<Rightarrow> bool \<Rightarrow> (pyval \<times> pyval \<times> pyval \<times> pyval) cmd" where
  "cli_update_prepare env args interactive =
     cbind (cli_update_setup env args interactive) (\<lambda>(wallet_keys, zonefile_data).
     cbind (update_load env (arg_name args) interactive zonefile_data)
       (\<lambda>(user_data_txt, user_data_hash).
     cbind (step_of (py_item wallet_keys ''data_pubkey'')) (\<lambda>data_pubkey.
     cbind (payment_then_owner wallet_keys) (\<lambda>(payment_privkey_info, owner_privkey_info).
       continue (payment_privkey_info, owner_privkey_info, user_data_txt, user_data_hash)))))"

text \<open>
  The \<^verbatim>\<open>try\<close> block of the update call: \<^verbatim>\<open>base64.b64encode\<close> of anything but a string
  raises inside it, before the daemon is called.
\<close>

definition update_send :: "env \<Rightarrow> string \<Rightarrow> pyval \<Rightarrow> pyval \<Rightarrow> pyval cmd" where
  "update_send env fqu user_data_txt user_data_hash =
     (case user_data_txt of
        PStr txt \<Rightarrow>
          backend_step env (Backend_update fqu (PStr (b64encode env txt)) PNone user_data_hash)
            (Raise (UnboundLocalError ''result''))
      | _ \<Rightarrow> return_now (error_result ''Error talking to server, try again.''))"

definition cli_update :: "env \<Rightarrow> args \<Rightarrow> bool \<Rightarrow> world \<Rightarrow> pyval outcome \<times> world" where
  "cli_update env args interactive =
     finish
       (cbind (cli_update_prepare env args interactive)
          (\<lambda>(payment_privkey_info, owner_privkey_info, user_data_txt, user_data_hash).
        cbind (sanity_check_step env (arg_name args) payment_privkey_info owner_privkey_info
                 None) (\<lambda>_.
          update_send env (arg_name args) user_data_txt user_data_hash)))"

subsection \<open>Migrate\<close>

text \<open>
  \<^verbatim>\<open>cli_migrate\<close>. \<open>migrate_classify\<close> is the bare \<^verbatim>\<open>try\<close> block that parses the stored
  zonefile: it yields the flags \<^verbatim>\<open>(nonstandard, legacy)\<close>. \<open>migrate_check\<close> is the code
  between the sanity check and the call of the daemon.
\<close>

definition cli_migrate_prepare :: "env \<Rightarrow> args \<Rightarrow> (pyval \<times> pyval) cmd" where
  "cli_migrate_prepare env args =
     cbind (step_of (wallet_ensure_exists env)) (\<lambda>res.
     cbind (return_if_error res) (\<lambda>_.
     cbind (valid_name_step env (arg_name args)) (\<lambda>_.
     cbind (return_if_error (start_rpc_endpoint env)) (\<lambda>_.
     cbind (wallet_keys_step env) (\<lambda>wallet_keys.
       owner_then_payment wallet_keys)))))"

definition migrate_classify :: "env \<Rightarrow> pyval \<Rightarrow> bool \<times> bool" where
  "migrate_classify env user_zonefile_txt =
     (case user_zonefile_txt of
        PStr txt \<Rightarrow>
          (case parse_zone_file env txt of
             None \<Rightarrow> (True, False)
           | Some user_zonefile \<Rightarrow>
               (case is_profile_in_legacy_format env user_zonefile of
                  Return legacy \<Rightarrow> (False, legacy)
                | Raise e \<Rightarrow> (True, False)
                | Exit \<Rightarrow> (True, False)))
      | _ \<Rightarrow> (True, False))"

definition migrate_check :: "env \<Rightarrow> string \<Rightarrow> bool \<Rightarrow> bool \<Rightarrow> unit cmd" where
  "migrate_check env fqu interactive force =
     (let user_zonefile = get_name_zonefile env fqu True in
      if user_zonefile = PNone then continue ()
      else
        cbind (step_of (py_in ''error'' user_zonefile)) (\<lambda>failed.
          if failed then continue ()
          else
            cbind (step_of (py_item user_zonefile ''name_record'')) (\<lambda>name_rec.
            cbind (step_of (py_item user_zonefile ''zonefile'')) (\<lambda>user_zonefile_txt.
              let user_zonefile_hash = get_zonefile_data_hash env user_zonefile_txt;
                  nonstandard = fst (migrate_classify env user_zonefile_txt);
                  legacy = snd (migrate_classify env user_zonefile_txt)
              in cbind (step_of (py_get name_rec ''value_hash'' (PStr []))) (\<lambda>value_hash.
                   let current = (value_hash = PStr user_zonefile_hash) in
                   if nonstandard \<and> \<not> legacy
                   then (if interactive \<and> \<not> force
                         then (case raw_input env of
                                 None \<Rightarrow> raise_now KeyboardInterrupt
                               | Some proceed_str \<Rightarrow>
                                   if lower proceed_str \<in> set [''y''] then continue ()
                                   else return_now (error_result ''Non-standard zonefile''))
                         else if \<not> force
                         then return_now (error_result ''Non-standard zonefile'')
                         else continue ())
                   else if \<not> legacy \<and> \<not> force
                   then (if current then return_now (error_result identical_msg)
                         else return_now (error_result ''Not a legacy profile; cannot migrate.''))
                   else continue ())))))"

definition cli_migrate :: "env \<Rightarrow> args \<Rightarrow> bool \<Rightarrow> bool \<Rightarrow> world \<Rightarrow> pyval outcome \<times> world" where
  "cli_migrate env args interactive force =
     finish
       (cbind (cli_migrate_prepare env args) (\<lambda>(payment_privkey_info, owner_privkey_info).
        cbind (sanity_check_step env (arg_name args) payment_privkey_info owner_privkey_info
                 None) (\<lambda>_.
        cbind (migrate_check env (arg_name args) interactive force) (\<lambda>_.
          backend_step env (Backend_migrate (arg_name args))
            (Raise (UnboundLocalError ''result''))))))"

subsection \<open>Setting the zonefile hash\<close>

text \<open>
  \<^verbatim>\<open>cli_set_zonefile_hash\<close>. \<open>matches_hex\<close> is \<^verbatim>\<open>re.match(r'^[a-fA-F0-9]+$', s)\<close>: the
  pattern's \<^verbatim>\<open>$\<close> also matches before a final newline.
\<close>

definition is_hex_char :: "char \<Rightarrow> bool" where
  "is_hex_char c =
     (let n = (of_char c :: nat) in
      (48 \<le> n \<and> n \<le> 57) \<or> (65 \<le> n \<and> n \<le> 70) \<or> (97 \<le> n \<and> n \<le> 102))"

definition matches_hex :: "string \<Rightarrow> bool" where
  "matches_hex s =
     (let body = (if s \<noteq> [] \<and> last s = CHR 0x0A then butlast s else s)
      in body \<noteq> [] \<and> list_all is_hex_char body)"

definition cli_set_zonefile_hash_prepare :: "env \<Rightarrow> args \<Rightarrow> (pyval \<times> pyval) cmd" where
  "cli_set_zonefile_hash_prepare env args =
     cbind (step_of (wallet_ensure_exists env)) (\<lambda>res.
     cbind (return_if_error res) (\<lambda>_.
     cbind (return_if_error (start_rpc_endpoint env)) (\<lambda>_.
     cbind (valid_name_step env (arg_name args)) (\<lambda>_.
       if \<not> matches_hex (arg_zonefile_hash args) \<or> length (arg_zonefile_hash args) \<noteq> 40
       then return_now (error_result ''Not a valid zonefile hash'')
       else
         cbind (wallet_keys_step env) (\<lambda>wallet_keys.
           owner_then_payment wallet_keys)))))"

definition cli_set_zonefile_hash :: "env \<Rightarrow> args \<Rightarrow> world \<Rightarrow> pyval outcome \<times> world" where
  "cli_set_zonefile_hash env args =
     finish
       (cbind (cli_set_zonefile_hash_prepare env args)
          (\<lambda>(payment_privkey_info, owner_privkey_info).
        cbind (sanity_check_step env (arg_name args) payment_privkey_info owner_privkey_info
                 None) (\<lambda>_.
          backend_step env
            (Backend_update (arg_name args) PNone PNone (PStr (arg_zonefile_hash args)))
            (Raise (UnboundLocalError ''result'')))))"

section \<open>Replicating a zonefile\<close>


definition sync_load :: "env \<Rightarrow> string \<Rightarrow> string \<Rightarrow> pyval option outcome" where
  "sync_load env name user_data =
     obind (load_zonefile env name (PStr user_data) True) (\<lambda>user_data_res.
     obind (py_in ''error'' user_data_res) (\<lambda>failed.
     obind (if failed then py_in ''identical'' user_data_res else Return True) (\<lambda>usable.
       if \<not> usable then Return None
       else obind (py_item user_data_res ''zonefile'') (\<lambda>zonefile. Return (Some zonefile)))))"

definition sync_given_zonefile :: "env \<Rightarrow> string \<Rightarrow> string \<Rightarrow> bool \<Rightarrow> bool \<Rightarrow> pyval cmd" where
  "sync_given_zonefile env name user_data interactive nonstandard =
     (case sync_load env name user_data of
        Exit \<Rightarrow> exit_now
      | Return (Some zonefile) \<Rightarrow> continue zonefile
      | _ \<Rightarrow>
          if interactive
          then cbind (prompt_invalid_zonefile env) (\<lambda>proceed.
                 if \<not> proceed then return_now (error_result ''Not replicating invalid zone file'')
                 else continue (PStr user_data))
          else if \<not> nonstandard
          then return_now (error_result ''Not replicating invalid zone file'')
          else continue (PStr user_data))"


definition sync_from_storage :: "env \<Rightarrow> string \<Rightarrow> pyval cmd" where
  "sync_from_storage env name =
     (let fetched = get_name_zonefile env name False;
          user_data = (if fetched = PNone then error_result ''No data loaded'' else fetched)
      in cbind (return_if_error user_data) (\<lambda>_. step_of (py_item user_data ''zonefile'')))"

fun history_walk :: "env \<Rightarrow> pydict \<Rightarrow> string list \<Rightarrow> string \<Rightarrow> pyval outcome" where
  "history_walk env name_history [] zonefile_hash = Return PNone"
| "history_walk env name_history (history_key # rest) zonefile_hash =
     (case map_of name_history history_key of
        None \<Rightarrow> Raise (KeyError history_key)
      | Some name_history_item \<Rightarrow>
          (case py_get name_history_item ''op'' PNone of
             Raise e \<Rightarrow> Raise e
           | Exit \<Rightarrow> Exit
           | Return op \<Rightarrow>
               if op = PNone then history_walk env name_history rest zonefile_hash
               else if op \<noteq> PStr (NAME_UPDATE env)
               then history_walk env name_history rest zonefile_hash
               else
                 (case py_get name_history_item ''value_hash'' PNone of
                    Raise e \<Rightarrow> Raise e
                  | Exit \<Rightarrow> Exit
                  | Return value_hash \<Rightarrow>
                      if value_hash = PNone
                      then history_walk env name_history rest zonefile_hash
                      else if value_hash \<noteq> PStr zonefile_hash
                      then history_walk env name_history rest zonefile_hash
                      else py_get name_history_item ''txid'' PNone)))"

definition history_lookup :: "env \<Rightarrow> pyval \<Rightarrow> string \<Rightarrow> pyval outcome" where
  "history_lookup env name_history zonefile_hash =
     (case name_history of
        PDict h \<Rightarrow> history_walk env h (rev (sort (remdups (map fst h)))) zonefile_hash
      | _ \<Rightarrow> Raise TypeError)"

definition sync_txid_from_record :: "env \<Rightarrow> string \<Rightarrow> string \<Rightarrow> pyval cmd" where
  "sync_txid_from_record env name zonefile_hash =
     (case get_name_blockchain_record env name of
        None \<Rightarrow> raise_now SocketError
      | Some name_rec \<Rightarrow>
          cbind (step_of (py_in ''error'' name_rec)) (\<lambda>failed.
            if failed
            then return_now (error_result ''Failed to get name record to look up tx hash.'')
            else
              cbind (step_of (py_item name_rec ''op'')) (\<lambda>op.
                if op = PStr (NAME_UPDATE env)
                then cbind (step_of (py_item name_rec ''value_hash'')) (\<lambda>value_hash.
                       if value_hash = PStr zonefile_hash
                       then step_of (py_item name_rec ''txid'')
                       else continue PNone)
                else cbind (step_of (py_item name_rec ''history'')) (\<lambda>name_history.
                       step_of (history_lookup env name_history zonefile_hash)))))"









section \<open>Frames and sample inputs\<close>

text \<open>
  A step leaves the operation queue alone and talks neither to the daemon nor to the
  storage when, however it ends, the queue and the recorded calls are what they were.
\<close>

definition quiet :: "'a cmd \<Rightarrow> bool" where
  "quiet m = (\<forall>w. queue (snd (m w)) = queue w \<and> calls (snd (m w)) = calls w)"

text \<open>
  A sample run: the name \<^verbatim>\<open>alice.id\<close> is registered and owned by the wallet, the wallet and
  the daemon are up, the payment address is funded, and the daemon accepts a call by
  queueing an entry for it.
\<close>

definition wallet0 :: pyval where
  "wallet0 = PDict [(''owner_privkey'', PStr ''ko''), (''payment_privkey'', PStr ''kp''),
                    (''data_pubkey'', PStr ''kd'')]"

definition zonefile0 :: pydict where
  "zonefile0 = [(''$origin'', PStr ''alice.id''), (''$ttl'', PInt 3600),
                (''uri'', PList [])]"

definition record0 :: pydict where
  "record0 = [(''value_hash'', PStr ''aa''), (''op'', PStr ''+''), (''txid'', PStr ''t2''),
              (''revoked'', PBool False)]"

definition env0 :: env where
  "env0 = \<lparr>
     is_name_valid = (\<lambda>_. True),
     is_b40 = (\<lambda>_. True),
     is_name_registered = (\<lambda>_. True),
     is_name_owner = (\<lambda>_ _. True),
     wallet_exists = True,
     initialize_wallet = status_true,
     wallet_path_exists = True,
     is_wallet_unlocked = True,
     unlock_wallet = status_true,
     get_wallet = (\<lambda>_. Return wallet0),
     get_addresses_from_file = (''1P'', ''1O'', ''1D''),
     get_privkey_info_address = (\<lambda>_. ''1P''),
     start_rpc_endpoint = status_true,
     estimate_preorder_tx_fee = (\<lambda>_. Return (Some 1000)),
     estimate_register_tx_fee = (\<lambda>_. Return (Some 1000)),
     estimate_update_tx_fee = (\<lambda>_. Return (Some 1000)),
     estimate_transfer_tx_fee = (\<lambda>_. Return (Some 1000)),
     get_tx_fee = (\<lambda>_. Some 2000),
     APPROX_PREORDER_TX_LEN = 2,
     APPROX_REGISTER_TX_LEN = 2,
     APPROX_UPDATE_TX_LEN = 2,
     APPROX_TRANSFER_TX_LEN = 2,
     get_balance = (\<lambda>_. Some 50000),
     is_address_usable = (\<lambda>_. True),
     is_b58check_address_raises = (\<lambda>_. False),
     get_names_owned_by_address = (\<lambda>_. []),
     get_name_cost = (\<lambda>_. Some (PDict [(''satoshis'', PInt 25000)])),
     json_loads = (\<lambda>_. None),
     parse_zone_file = (\<lambda>_. Some zonefile0),
     make_zone_file = (\<lambda>_. Some ''zf''),
     is_user_zonefile = (\<lambda>_. True),
     hash_zonefile = (\<lambda>_. ''bb''),
     get_zonefile_data_hash = (\<lambda>_. ''bb''),
     get_name_zonefile = (\<lambda>_ _. PNone),
     is_profile_in_legacy_format = (\<lambda>_. Return False),
     get_name_blockchain_record = (\<lambda>_. Some (PDict record0)),
     get_name_profile = (\<lambda>_. None),
     getinfo = PDict [],
     get_consensus_at = (\<lambda>_. PNone),
     raw_input = Some ''y'',
     path_exists = (\<lambda>_. False),
     read_file = (\<lambda>_. None),
     b64encode = (\<lambda>s. s),
     allow_invalid_zonefile = None,
     backend = (\<lambda>c q. (Some (PDict [(''success'', PBool True)]), q @ [[(''type'', PStr ''op'')]])),
     queuedb_find = (\<lambda>_ _ _. []),
     queue_extract_entry = (\<lambda>q. q),
     zonefile_data_replicate = (\<lambda>_ _ _. status_true),
     namespace_reveal = None,
     NAME_UPDATE = ''+'',
     get_config = [(''server'', PStr ''s''), (''port'', PInt 6264), (''queue_path'', PStr ''q'')],
     format_exc = ''tb'',
     repr_container = (\<lambda>_. ''obj'')
   \<rparr>"

definition args0 :: args where
  "args0 = \<lparr>
     arg_name = ''alice.id'',
     arg_data = Some ''zone'',
     arg_address = ''1A'',
     arg_txid = None,
     arg_zonefile = None,
     arg_nonstandard = None,
     arg_zonefile_hash = ''aa'',
     arg_block_height = None,
     arg_namespace_id = ''id'',
     arg_addr = ''1A'',
     arg_lifetime = ''1'',
     arg_coeff = ''1'',
     arg_base = ''1'',
     arg_bucket_exponents = ''1,2'',
     arg_nonalpha_discount = ''1'',
     arg_no_vowel_discount = ''1'',
     arg_privatekey = ''k''
   \<rparr>"

definition w0 :: world where
  "w0 = \<lparr>queue = [], calls = [], sleeps = [], wallet_fetches = 0\<rparr>"

text \<open>Variations of the sample run.\<close>

definition env_no_balance :: env where
  "env_no_balance = env0\<lparr>get_balance := \<lambda>_. None\<rparr>"

definition args_hash :: args where
  "args_hash = args0\<lparr>arg_zonefile_hash := ''0123456789abcdef0123456789abcdef01234567''\<rparr>"

definition env_full :: env where
  "env_full = env0\<lparr>get_names_owned_by_address := \<lambda>_. replicate 26 ''n''\<rparr>"

definition env_full_unregistered :: env where
  "env_full_unregistered = env_full\<lparr>is_name_registered := \<lambda>_. False\<rparr>"

definition env_same :: env where
  "env_same = env0\<lparr>hash_zonefile := \<lambda>_. ''aa''\<rparr>"

definition env_revoked :: env where
  "env_revoked = env0\<lparr>get_name_blockchain_record :=
      \<lambda>_. Some (PDict [(''value_hash'', PNone), (''revoked'', PBool True)])\<rparr>"

definition env_revoked_no_hash :: env where
  "env_revoked_no_hash = env0\<lparr>get_name_blockchain_record :=
      \<lambda>_. Some (PDict [(''revoked'', PBool True)])\<rparr>"

definition env_no_estimate :: env where
  "env_no_estimate = env0\<lparr>estimate_update_tx_fee := \<lambda>_. Return None\<rparr>"

definition env_no_fee :: env where
  "env_no_fee = env_no_estimate\<lparr>get_tx_fee := \<lambda>_. None\<rparr>"

definition env_unserializable :: env where
  "env_unserializable = env0\<lparr>make_zone_file := \<lambda>_. None\<rparr>"









section \<open>The wallet fetch gives up after three refused connections\<close>

text \<open>
  C6. When every attempt to fetch the wallet is refused (\<^verbatim>\<open>ECONNREFUSED\<close>),
  \<^verbatim>\<open>get_wallet_with_backoff\<close> makes three attempts and sleeps 1, 2 and 3 seconds after them.
  The loop variable then holds 2, the last value of \<^verbatim>\<open>range(3)\<close>, so the test \<^verbatim>\<open>i == 3\<close>
  fails and the function returns \<^verbatim>\<open>None\<close> where its docstring promises
  \<^verbatim>\<open>{'error': ...}\<close>.
\<close>

theorem get_wallet_with_backoff_refused_returns_None:
  "get_wallet_with_backoff (env0\<lparr>get_wallet := \<lambda>k. Raise (EnvironmentError ECONNREFUSED)\<rparr>) w0
     = (Return PNone, w0\<lparr>sleeps := [1, 2, 3], wallet_fetches := 3\<rparr>)"
  by (simp add: get_wallet_with_backoff_def w0_def upt_rec numeral_3_eq_3)

section \<open>The consensus command reads a key that is never there\<close>

text \<open>
  C5. On a server reply that holds both \<^verbatim>\<open>last_block_processed\<close> and \<^verbatim>\<open>consensus_hash\<close>,
  \<^verbatim>\<open>cli_consensus\<close> without a block height does not return the consensus hash and the
  height: it reads \<^verbatim>\<open>resp['consensns_hash']\<close> and raises \<^verbatim>\<open>KeyError\<close>.
\<close>

theorem cli_consensus_raises_KeyError:
  "cli_consensus
     (env0\<lparr>getinfo := PDict [(''last_block_processed'', PInt 400000),
                              (''consensus_hash'', PStr ''abcd'')]\<rparr>) args0
     = Raise (KeyError ''consensns_hash'')"
  by (simp add: cli_consensus_def args0_def unless_error_def has_key_def)

section \<open>Bucket exponents are validated before the reveal\<close>

lemma check_bucket_exponents_Some:
  "check_bucket_exponents bs = Some ns \<Longrightarrow> b \<in> set bs \<Longrightarrow>
   \<exists>n. py_int_of_string b = Some n \<and> 0 \<le> n \<and> n \<le> 15"
  by (induction bs arbitrary: ns) (auto split: option.splits if_splits)

lemma check_bucket_exponents_None:
  "\<exists>b\<in>set bs. \<forall>n. py_int_of_string b = Some n \<longrightarrow> \<not> (0 \<le> n \<and> n \<le> 15)
   \<Longrightarrow> check_bucket_exponents bs = None"
  using check_bucket_exponents_Some by (cases "check_bucket_exponents bs") blast+

text \<open>
  C9. When the \<^verbatim>\<open>bucket_exponents\<close> argument does not split at its commas into exactly 16
  fields, or one of the fields is not the decimal text of an integer between 0 and 15,
  \<^verbatim>\<open>cli_namespace_reveal\<close> returns an error result and leaves the world as it was: no reveal
  call has been recorded. The message is the one for the length when the length is wrong,
  the one for the values otherwise.
\<close>

theorem cli_namespace_reveal_rejects_bad_exponents:
  assumes "length (split_on CHR '','' (arg_bucket_exponents args)) \<noteq> 16 \<or>
           (\<exists>b\<in>set (split_on CHR '','' (arg_bucket_exponents args)).
              \<forall>n. py_int_of_string b = Some n \<longrightarrow> \<not> (0 \<le> n \<and> n \<le> 15))"
  shows "cli_namespace_reveal env args w =
           (Return (error_result
              (if length (split_on CHR '','' (arg_bucket_exponents args)) \<noteq> 16
               then ''`bucket_exponents` must be a 16-value CSV of integers''
               else ''`bucket_exponents` must contain integers between 0 and 15, inclusively.'')),
            w)"
  using assms check_bucket_exponents_None
  by (auto simp: cli_namespace_reveal_def Let_def)

theorem cli_namespace_reveal_rejects_bad_exponents_witness:
  "cli_namespace_reveal env0 (args0\<lparr>arg_bucket_exponents := ''1,2,3''\<rparr>) w0 =
     (Return (error_result ''`bucket_exponents` must be a 16-value CSV of integers''), w0)
   \<and> cli_namespace_reveal env0
       (args0\<lparr>arg_bucket_exponents := ''0,1,2,3,4,5,6,7,8,9,10,11,12,13,14,16''\<rparr>) w0 =
     (Return (error_result
        ''`bucket_exponents` must contain integers between 0 and 15, inclusively.''), w0)"
  using cli_namespace_reveal_rejects_bad_exponents
          [of "args0\<lparr>arg_bucket_exponents := ''1,2,3''\<rparr>" env0 w0]
        cli_namespace_reveal_rejects_bad_exponents
          [of "args0\<lparr>arg_bucket_exponents := ''0,1,2,3,4,5,6,7,8,9,10,11,12,13,14,16''\<rparr>" env0 w0]
  by (simp add: py_int_of_string_def strip_def is_py_space_def is_digit_def digits_value_def)

section \<open>What the steps of a command leave alone\<close>

lemma get_wallet_loop_frame:
  "get_wallet_loop env js i w = (r, i', w') \<Longrightarrow> queue w' = queue w \<and> calls w' = calls w"
proof (induction js arbitrary: i w)
  case Nil
  then show ?case by simp
next
  case (Cons j js)
  show ?case
  proof (cases "get_wallet env (wallet_fetches w)")
    case (Return x)
    with Cons.prems show ?thesis by auto
  next
    case (Raise e)
    show ?thesis
    proof (cases "e = EnvironmentError ECONNREFUSED")
      case True
      with Raise Cons.prems
      have "get_wallet_loop env js j
              (w\<lparr>wallet_fetches := Suc (wallet_fetches w), sleeps := sleeps w @ [j + 1]\<rparr>) = (r, i', w')"
        by simp
      from Cons.IH[OF this] show ?thesis by simp
    next
      case False
      with Raise Cons.prems show ?thesis by (cases e) (auto split: if_splits)
    qed
  next
    case Exit
    with Cons.prems show ?thesis by auto
  qed
qed

lemma get_wallet_with_backoff_frame:
  "queue (snd (get_wallet_with_backoff env w)) = queue w \<and>
   calls (snd (get_wallet_with_backoff env w)) = calls w"
proof -
  obtain r i w' where h: "get_wallet_loop env [0..<3] 0 w = (r, i, w')"
    by (cases "get_wallet_loop env [0..<3] 0 w") auto
  from get_wallet_loop_frame[OF h] h show ?thesis
    by (cases r) (simp_all add: get_wallet_with_backoff_def)
qed

lemma unless_error_w_frame:
  assumes "queue (snd rest) = queue w \<and> calls (snd rest) = calls w"
  shows "queue (snd (unless_error_w res w rest)) = queue w \<and>
         calls (snd (unless_error_w res w rest)) = calls w"
  using assms by (cases "py_in ''error'' res") (auto simp: unless_error_w_def)

lemma get_wallet_keys_frame:
  "queue (snd (get_wallet_keys env w)) = queue w \<and> calls (snd (get_wallet_keys env w)) = calls w"
  by (simp add: get_wallet_keys_def Let_def unless_error_w_frame get_wallet_with_backoff_frame)

lemma quiet_continue [simp, intro!]: "quiet (continue x)"
  by (simp add: quiet_def continue_def)

lemma quiet_return_now [simp, intro!]: "quiet (return_now v)"
  by (simp add: quiet_def return_now_def)

lemma quiet_raise_now [simp, intro!]: "quiet (raise_now e)"
  by (simp add: quiet_def raise_now_def)

lemma quiet_exit_now [simp, intro!]: "quiet exit_now"
  by (simp add: quiet_def exit_now_def)

lemma quiet_step_of [simp, intro!]: "quiet (step_of out)"
  by (cases out) (simp_all add: quiet_def step_of_def)

lemma quiet_cbind [intro!]:
  assumes "quiet m" and "\<And>x. quiet (f x)"
  shows "quiet (cbind m f)"
proof -
  have "queue (snd (cbind m f w)) = queue w \<and> calls (snd (cbind m f w)) = calls w" for w
  proof (cases "m w")
    case (Pair r w1)
    from assms(1) Pair have m: "queue w1 = queue w \<and> calls w1 = calls w"
      by (auto simp: quiet_def dest: spec[of _ w])
    show ?thesis
    proof (cases r)
      case (Inl out)
      with Pair m show ?thesis by (simp add: cbind_def)
    next
      case (Inr x)
      from assms(2)[of x] have "queue (snd (f x w1)) = queue w1 \<and> calls (snd (f x w1)) = calls w1"
        by (simp add: quiet_def)
      with Pair Inr m show ?thesis by (simp add: cbind_def)
    qed
  qed
  then show ?thesis by (simp add: quiet_def)
qed

lemma quiet_if [intro!]: "(c \<Longrightarrow> quiet a) \<Longrightarrow> (\<not> c \<Longrightarrow> quiet b) \<Longrightarrow> quiet (if c then a else b)"
  by simp

lemma quiet_case_prod [intro!]: "(\<And>a b. quiet (f a b)) \<Longrightarrow> quiet (case_prod f p)"
  by (cases p) simp

lemma quiet_case_option [intro!]:
  "quiet a \<Longrightarrow> (\<And>x. quiet (f x)) \<Longrightarrow> quiet (case_option a f opt)"
  by (cases opt) simp_all

lemma quiet_return_if_error [simp, intro!]: "quiet (return_if_error res)"
  unfolding return_if_error_def by blast

lemma quiet_valid_name_step [simp, intro!]: "quiet (valid_name_step env fqu)"
  unfolding valid_name_step_def by blast

lemma quiet_get_wallet_keys: "quiet (\<lambda>w. case get_wallet_keys env w of (out, w1) \<Rightarrow> step_of out w1)"
proof -
  have "queue (snd (case get_wallet_keys env w of (out, w1) \<Rightarrow> step_of out w1)) = queue w \<and>
        calls (snd (case get_wallet_keys env w of (out, w1) \<Rightarrow> step_of out w1)) = calls w" for w
    using get_wallet_keys_frame[of env w]
    by (cases "get_wallet_keys env w"; cases "fst (get_wallet_keys env w)")
       (auto simp: step_of_def)
  then show ?thesis by (simp add: quiet_def)
qed

lemma quiet_wallet_keys_step [simp, intro!]: "quiet (wallet_keys_step env)"
  unfolding wallet_keys_step_def using quiet_get_wallet_keys by blast

lemma quiet_owner_then_payment [simp, intro!]: "quiet (owner_then_payment wk)"
  unfolding owner_then_payment_def by blast

lemma quiet_payment_then_owner [simp, intro!]: "quiet (payment_then_owner wk)"
  unfolding payment_then_owner_def by blast

lemma quiet_sanity_check_step [simp, intro!]: "quiet (sanity_check_step env fqu p o' ta)"
  unfolding sanity_check_step_def by blast

lemma quiet_prompt_invalid_zonefile [simp, intro!]: "quiet (prompt_invalid_zonefile env)"
  unfolding prompt_invalid_zonefile_def by blast

lemma quiet_cli_transfer_prepare: "quiet (cli_transfer_prepare env args)"
  unfolding cli_transfer_prepare_def by blast

lemma quiet_cli_revoke_prepare: "quiet (cli_revoke_prepare env args)"
  unfolding cli_revoke_prepare_def by blast

lemma quiet_cli_migrate_prepare: "quiet (cli_migrate_prepare env args)"
  unfolding cli_migrate_prepare_def by blast

lemma quiet_cli_set_zonefile_hash_prepare: "quiet (cli_set_zonefile_hash_prepare env args)"
  unfolding cli_set_zonefile_hash_prepare_def by blast

lemma quiet_update_read_file [simp, intro!]: "quiet (update_read_file env d)"
  unfolding update_read_file_def by blast

lemma quiet_update_fetch_remote [simp, intro!]: "quiet (update_fetch_remote env fqu d)"
  unfolding update_fetch_remote_def Let_def by blast

lemma quiet_parse_serialized [simp, intro!]: "quiet (parse_serialized env z)"
  unfolding parse_serialized_def by (cases z) (auto split: option.splits)

lemma quiet_update_load [simp, intro!]: "quiet (update_load env fqu i d)"
  unfolding update_load_def by blast

lemma quiet_cli_update_setup [simp, intro!]: "quiet (cli_update_setup env args i)"
  unfolding cli_update_setup_def by blast

lemma quiet_cli_update_prepare: "quiet (cli_update_prepare env args i)"
  unfolding cli_update_prepare_def by blast

lemma quiet_frame:
  "quiet m \<Longrightarrow> m w = (r, w1) \<Longrightarrow> queue w1 = queue w \<and> calls w1 = calls w"
  by (auto simp: quiet_def dest: spec[of _ w])

lemma sanity_check_step_error:
  assumes "operation_sanity_check env fqu payment owner ta = Return res"
      and "py_in ''error'' res = Return True"
  shows "sanity_check_step env fqu payment owner ta w = (Inl (Return res), w)"
  using assms
  by (simp add: sanity_check_step_def return_if_error_def cbind_def step_of_def return_now_def)

lemma finish_frame:
  "quiet m \<Longrightarrow> queue (snd (finish m w)) = queue w \<and> calls (snd (finish m w)) = calls w"
proof -
  assume q: "quiet m"
  obtain r w1 where h: "m w = (r, w1)" by (cases "m w") auto
  from quiet_frame[OF q h] h show ?thesis by (cases r) (simp_all add: finish_def)
qed

text \<open>The definitions that evaluate a command on a sample input.\<close>

lemmas step_defs = cbind_def continue_def return_now_def raise_now_def exit_now_def step_of_def
  return_if_error_def valid_name_step_def wallet_keys_step_def owner_then_payment_def
  payment_then_owner_def wallet_ensure_exists_def get_wallet_keys_def
  get_wallet_with_backoff_def check_valid_name_def unless_error_def unless_error_w_def
  status_true_def error_result_def has_key_def upt_rec numeral_3_eq_3

section \<open>A failed sanity check stops the operation\<close>

text \<open>
  C2. For each of \<^verbatim>\<open>cli_update\<close>, \<^verbatim>\<open>cli_transfer\<close>, \<^verbatim>\<open>cli_revoke\<close>, \<^verbatim>\<open>cli_migrate\<close> and
  \<^verbatim>\<open>cli_set_zonefile_hash\<close>: when the command gets as far as its call of
  \<^verbatim>\<open>operation_sanity_check\<close> (its steps before the call yield the wallet keys) and the
  check returns a result with an \<^verbatim>\<open>error\<close> key, the command returns that very result, and
  the operation queue and the list of calls to the daemon are what they were before the
  command: no queue entry was made and nothing was broadcast.
\<close>

theorem sanity_check_error_stops_operation:
  assumes "py_in ''error'' res = Return True"
  shows
   "(cli_update_prepare env args interactive w = (Inr (payment, owner, ztxt, h), w') \<and>
     operation_sanity_check env (arg_name args) payment owner None = Return res
       \<longrightarrow> cli_update env args interactive w = (Return res, w') \<and>
           queue w' = queue w \<and> calls w' = calls w)
  \<and> (cli_transfer_prepare env args w = (Inr (payment, owner), w') \<and>
     operation_sanity_check env (arg_name args) payment owner (Some (arg_address args)) = Return res
       \<longrightarrow> cli_transfer env args w = (Return res, w') \<and>
           queue w' = queue w \<and> calls w' = calls w)
  \<and> (cli_revoke_prepare env args w = (Inr (payment, owner), w') \<and>
     operation_sanity_check env (arg_name args) payment owner None = Return res
       \<longrightarrow> cli_revoke env args interactive w = (Return res, w') \<and>
           queue w' = queue w \<and> calls w' = calls w)
  \<and> (cli_migrate_prepare env args w = (Inr (payment, owner), w') \<and>
     operation_sanity_check env (arg_name args) payment owner None = Return res
       \<longrightarrow> cli_migrate env args interactive force w = (Return res, w') \<and>
           queue w' = queue w \<and> calls w' = calls w)
  \<and> (cli_set_zonefile_hash_prepare env args w = (Inr (payment, owner), w') \<and>
     operation_sanity_check env (arg_name args) payment owner None = Return res
       \<longrightarrow> cli_set_zonefile_hash env args w = (Return res, w') \<and>
           queue w' = queue w \<and> calls w' = calls w)"
proof (intro conjI impI; elim conjE)
  assume p: "cli_update_prepare env args interactive w = (Inr (payment, owner, ztxt, h), w')"
     and s: "operation_sanity_check env (arg_name args) payment owner None = Return res"
  show "cli_update env args interactive w = (Return res, w')"
    using p sanity_check_step_error[OF s assms]
    by (simp add: cli_update_def finish_def cbind_def)
  show "queue w' = queue w" "calls w' = calls w"
    using quiet_frame[OF quiet_cli_update_prepare p] by simp_all
next
  assume p: "cli_transfer_prepare env args w = (Inr (payment, owner), w')"
     and s: "operation_sanity_check env (arg_name args) payment owner (Some (arg_address args)) = Return res"
  show "cli_transfer env args w = (Return res, w')"
    using p sanity_check_step_error[OF s assms]
    by (simp add: cli_transfer_def finish_def cbind_def)
  show "queue w' = queue w" "calls w' = calls w"
    using quiet_frame[OF quiet_cli_transfer_prepare p] by simp_all
next
  assume p: "cli_revoke_prepare env args w = (Inr (payment, owner), w')"
     and s: "operation_sanity_check env (arg_name args) payment owner None = Return res"
  show "cli_revoke env args interactive w = (Return res, w')"
    using p sanity_check_step_error[OF s assms]
    by (simp add: cli_revoke_def finish_def cbind_def)
  show "queue w' = queue w" "calls w' = calls w"
    using quiet_frame[OF quiet_cli_revoke_prepare p] by simp_all
next
  assume p: "cli_migrate_prepare env args w = (Inr (payment, owner), w')"
     and s: "operation_sanity_check env (arg_name args) payment owner None = Return res"
  show "cli_migrate env args interactive force w = (Return res, w')"
    using p sanity_check_step_error[OF s assms]
    by (simp add: cli_migrate_def finish_def cbind_def)
  show "queue w' = queue w" "calls w' = calls w"
    using quiet_frame[OF quiet_cli_migrate_prepare p] by simp_all
next
  assume p: "cli_set_zonefile_hash_prepare env args w = (Inr (payment, owner), w')"
     and s: "operation_sanity_check env (arg_name args) payment owner None = Return res"
  show "cli_set_zonefile_hash env args w = (Return res, w')"
    using p sanity_check_step_error[OF s assms]
    by (simp add: cli_set_zonefile_hash_def finish_def cbind_def)
  show "queue w' = queue w" "calls w' = calls w"
    using quiet_frame[OF quiet_cli_set_zonefile_hash_prepare p] by simp_all
qed


lemma transfer_prepare_no_balance:
  "cli_transfer_prepare env_no_balance args_hash w0
     = (Inr (PStr ''kp'', PStr ''ko''), w0\<lparr>wallet_fetches := 2\<rparr>)"
  by (simp add: cli_transfer_prepare_def env_no_balance_def env0_def args_hash_def args0_def
        w0_def wallet0_def step_defs)

lemma sanity_check_no_balance:
  "operation_sanity_check env_no_balance ''alice.id'' (PStr ''kp'') (PStr ''ko'') ta
     = Return (error_result ''Failed to get balance'')"
  by (simp add: operation_sanity_check_def env_no_balance_def env0_def split: option.splits)

lemma revoke_prepare_no_balance:
  "cli_revoke_prepare env_no_balance args_hash w0
     = (Inr (PStr ''kp'', PStr ''ko''), w0\<lparr>wallet_fetches := 1\<rparr>)"
  by (simp add: cli_revoke_prepare_def env_no_balance_def env0_def args_hash_def args0_def
        w0_def wallet0_def step_defs)

lemma migrate_prepare_no_balance:
  "cli_migrate_prepare env_no_balance args_hash w0
     = (Inr (PStr ''kp'', PStr ''ko''), w0\<lparr>wallet_fetches := 1\<rparr>)"
  by (simp add: cli_migrate_prepare_def env_no_balance_def env0_def args_hash_def args0_def
        w0_def wallet0_def step_defs)

lemma set_zonefile_hash_prepare_no_balance:
  "cli_set_zonefile_hash_prepare env_no_balance args_hash w0
     = (Inr (PStr ''kp'', PStr ''ko''), w0\<lparr>wallet_fetches := 1\<rparr>)"
  by (simp add: cli_set_zonefile_hash_prepare_def env_no_balance_def env0_def args_hash_def
        args0_def w0_def wallet0_def step_defs matches_hex_def is_hex_char_def)

lemma update_prepare_no_balance:
  "cli_update_prepare env_no_balance args_hash False w0
     = (Inr (PStr ''kp'', PStr ''ko'', PStr ''zf'', PStr ''bb''), w0\<lparr>wallet_fetches := 1\<rparr>)"
  by (simp add: cli_update_prepare_def cli_update_setup_def update_load_def
        update_read_file_def update_fetch_remote_def load_zonefile_def decode_zonefile_def
        ttl_is_valid_def is_zonefile_current_def current_value_hash_def parse_serialized_def
        is_valid_path_def zonefile0_def record0_def dict_get_def env_no_balance_def env0_def
        args_hash_def args0_def w0_def wallet0_def step_defs)

lemma arg_name_args_hash: "arg_name args_hash = ''alice.id''"
  by (simp add: args_hash_def args0_def)

text \<open>The five commands on a wallet whose balance cannot be read.\<close>

theorem sanity_check_error_stops_operation_witness:
  "cli_update env_no_balance args_hash False w0
     = (Return (error_result ''Failed to get balance''), w0\<lparr>wallet_fetches := 1\<rparr>)
   \<and> cli_transfer env_no_balance args_hash w0
     = (Return (error_result ''Failed to get balance''), w0\<lparr>wallet_fetches := 2\<rparr>)
   \<and> cli_revoke env_no_balance args_hash True w0
     = (Return (error_result ''Failed to get balance''), w0\<lparr>wallet_fetches := 1\<rparr>)
   \<and> cli_migrate env_no_balance args_hash True False w0
     = (Return (error_result ''Failed to get balance''), w0\<lparr>wallet_fetches := 1\<rparr>)
   \<and> cli_set_zonefile_hash env_no_balance args_hash w0
     = (Return (error_result ''Failed to get balance''), w0\<lparr>wallet_fetches := 1\<rparr>)"
  using sanity_check_error_stops_operation
          [where res="error_result ''Failed to get balance''" and env=env_no_balance
             and args=args_hash and w=w0 and payment="PStr ''kp''" and owner="PStr ''ko''"
             and ztxt="PStr ''zf''" and h="PStr ''bb''" and w'="w0\<lparr>wallet_fetches := 1\<rparr>"
             and interactive=False and force=False]
        sanity_check_error_stops_operation
          [where res="error_result ''Failed to get balance''" and env=env_no_balance
             and args=args_hash and w=w0 and payment="PStr ''kp''" and owner="PStr ''ko''"
             and ztxt="PStr ''zf''" and h="PStr ''bb''" and w'="w0\<lparr>wallet_fetches := 2\<rparr>"
             and interactive=True and force=False]
        sanity_check_error_stops_operation
          [where res="error_result ''Failed to get balance''" and env=env_no_balance
             and args=args_hash and w=w0 and payment="PStr ''kp''" and owner="PStr ''ko''"
             and ztxt="PStr ''zf''" and h="PStr ''bb''" and w'="w0\<lparr>wallet_fetches := 1\<rparr>"
             and interactive=True and force=False]
        transfer_prepare_no_balance sanity_check_no_balance revoke_prepare_no_balance
        migrate_prepare_no_balance set_zonefile_hash_prepare_no_balance
        update_prepare_no_balance arg_name_args_hash
  by (simp add: error_result_def has_key_def w0_def)

section \<open>A transfer to an address that owns too many names\<close>

lemma sanity_check_refuses_full_address:
  assumes "\<not> can_receive_name env address"
      and "operation_sanity_check env fqu payment owner (Some address) = Return r"
  shows "py_in ''error'' r = Return True"
proof -
  obtain pa oa da where a: "get_addresses_from_file env = (pa, oa, da)"
    by (cases "get_addresses_from_file env") auto
  show ?thesis
  proof (cases "estimate_transfer_tx_fee env fqu")
    case (Return est)
    with assms a show ?thesis
      by (auto simp: operation_sanity_check_def error_result_def has_key_def
               split: if_splits option.splits)
  next
    case (Raise e)
    with assms a show ?thesis
      by (auto simp: operation_sanity_check_def error_result_def has_key_def split: if_splits)
  next
    case Exit
    with assms a show ?thesis
      by (auto simp: operation_sanity_check_def error_result_def has_key_def split: if_splits)
  qed
qed

lemma sanity_check_step_full_address:
  assumes "\<not> can_receive_name env address"
  shows "\<exists>out. sanity_check_step env fqu payment owner (Some address) w = (Inl out, w)"
proof (cases "operation_sanity_check env fqu payment owner (Some address)")
  case (Return r)
  from sanity_check_refuses_full_address[OF assms Return] Return show ?thesis
    by (simp add: sanity_check_step_def return_if_error_def cbind_def step_of_def return_now_def)
next
  case (Raise e)
  then show ?thesis by (simp add: sanity_check_step_def cbind_def step_of_def)
next
  case Exit
  then show ?thesis by (simp add: sanity_check_step_def cbind_def step_of_def)
qed

lemma quiet_refused_transfer:
  assumes "\<not> can_receive_name env address"
  shows "quiet (cbind (sanity_check_step env fqu payment owner (Some address)) f)"
proof -
  have "queue (snd (cbind (sanity_check_step env fqu payment owner (Some address)) f w)) = queue w \<and>
        calls (snd (cbind (sanity_check_step env fqu payment owner (Some address)) f w)) = calls w" for w
    using sanity_check_step_full_address[OF assms, of fqu payment owner w]
    by (auto simp: cbind_def)
  then show ?thesis by (simp add: quiet_def)
qed

text \<open>
  C4, as the code has it. Let the destination address of a transfer own more than
  \<open>MAXIMUM_NAMES_PER_ADDRESS\<close> (25) names. Then \<^verbatim>\<open>cli_transfer\<close> leaves the operation queue
  and the list of calls to the daemon as they were, and \<^verbatim>\<open>operation_sanity_check\<close> never
  returns a result without an \<^verbatim>\<open>error\<close> key. When the checks that come first in
  \<^verbatim>\<open>operation_sanity_check\<close> pass (the name is registered and owned by the wallet, a fee
  estimate or its fallback is there, the payment address holds at least the fee and is
  usable, the destination is a well-formed address), the result is the error
  \<^verbatim>\<open>Address ... owns too many names already.\<close>, and \<^verbatim>\<open>cli_transfer\<close> returns it when it gets
  as far as the check.
\<close>

theorem transfer_to_full_address_refused:
  assumes "MAXIMUM_NAMES_PER_ADDRESS < length (get_names_owned_by_address env (arg_address args))"
  shows
    "queue (snd (cli_transfer env args w)) = queue w \<and>
     calls (snd (cli_transfer env args w)) = calls w \<and>
     (\<forall>r. operation_sanity_check env (arg_name args) payment owner (Some (arg_address args)) = Return r
            \<longrightarrow> py_in ''error'' r = Return True) \<and>
     (is_name_registered env (arg_name args) \<and>
      is_name_owner env (arg_name args) (fst (snd (get_addresses_from_file env))) \<and>
      estimate_transfer_tx_fee env (arg_name args) = Return estimate \<and>
      (case estimate of
         None \<Rightarrow> get_tx_fee env (concat (replicate (APPROX_TRANSFER_TX_LEN env) ''00''))
       | Some fee \<Rightarrow> Some fee) = Some tx_fee \<and>
      get_balance env (fst (get_addresses_from_file env)) = Some balance \<and>
      tx_fee \<le> balance \<and>
      is_address_usable env (fst (get_addresses_from_file env)) \<and>
      \<not> is_b58check_address_raises env (arg_address args)
      \<longrightarrow> operation_sanity_check env (arg_name args) payment owner (Some (arg_address args))
            = Return (error_result (''Address '' @ arg_address args @ '' owns too many names already.''))
          \<and> (cli_transfer_prepare env args w = (Inr (payment, owner), w')
               \<longrightarrow> cli_transfer env args w
                     = (Return (error_result
                          (''Address '' @ arg_address args @ '' owns too many names already.'')), w')))"
proof -
  from assms have full: "\<not> can_receive_name env (arg_address args)"
    by (simp add: can_receive_name_def)
  have "quiet (cbind (cli_transfer_prepare env args) (\<lambda>(payment_privkey_info, owner_privkey_info).
        cbind (sanity_check_step env (arg_name args) payment_privkey_info owner_privkey_info
                 (Some (arg_address args))) (\<lambda>_.
          backend_step env (Backend_transfer (arg_name args) (arg_address args))
            (Raise (UnboundLocalError ''result'')))))"
    by (intro quiet_cbind quiet_case_prod quiet_cli_transfer_prepare quiet_refused_transfer[OF full])
  from finish_frame[OF this]
  have frame: "queue (snd (cli_transfer env args w)) = queue w \<and>
               calls (snd (cli_transfer env args w)) = calls w"
    by (simp add: cli_transfer_def)
  have refuse: "\<forall>r. operation_sanity_check env (arg_name args) payment owner (Some (arg_address args)) = Return r
            \<longrightarrow> py_in ''error'' r = Return True"
    using sanity_check_refuses_full_address[OF full] by blast
  have msg: "operation_sanity_check env (arg_name args) payment owner (Some (arg_address args))
            = Return (error_result (''Address '' @ arg_address args @ '' owns too many names already.''))"
    if "is_name_registered env (arg_name args)"
       "is_name_owner env (arg_name args) (fst (snd (get_addresses_from_file env)))"
       "estimate_transfer_tx_fee env (arg_name args) = Return estimate"
       "(case estimate of
         None \<Rightarrow> get_tx_fee env (concat (replicate (APPROX_TRANSFER_TX_LEN env) ''00''))
       | Some fee \<Rightarrow> Some fee) = Some tx_fee"
       "get_balance env (fst (get_addresses_from_file env)) = Some balance"
       "tx_fee \<le> balance"
       "is_address_usable env (fst (get_addresses_from_file env))"
       "\<not> is_b58check_address_raises env (arg_address args)"
    using that full
    by (cases "get_addresses_from_file env") (simp add: operation_sanity_check_def)
  have cmd: "cli_transfer env args w
                     = (Return (error_result
                          (''Address '' @ arg_address args @ '' owns too many names already.'')), w')"
    if "operation_sanity_check env (arg_name args) payment owner (Some (arg_address args))
            = Return (error_result (''Address '' @ arg_address args @ '' owns too many names already.''))"
       "cli_transfer_prepare env args w = (Inr (payment, owner), w')"
    using that sanity_check_step_error[OF that(1), of w']
    by (simp add: cli_transfer_def finish_def cbind_def error_result_def has_key_def)
  from frame refuse msg cmd show ?thesis by blast
qed

lemma transfer_prepare_sample:
  "cli_transfer_prepare (env0\<lparr>get_names_owned_by_address := names, is_name_registered := reg\<rparr>) args0 w0
     = (Inr (PStr ''kp'', PStr ''ko''), w0\<lparr>wallet_fetches := 2\<rparr>)"
  by (simp add: cli_transfer_prepare_def env0_def args0_def w0_def wallet0_def step_defs)

text \<open>The sample transfer to an address that owns 26 names.\<close>

theorem transfer_to_full_address_refused_witness:
  "cli_transfer env_full args0 w0 =
     (Return (error_result ''Address 1A owns too many names already.''), w0\<lparr>wallet_fetches := 2\<rparr>)
   \<and> queue (snd (cli_transfer env_full args0 w0)) = queue w0
   \<and> calls (snd (cli_transfer env_full args0 w0)) = calls w0"
  using transfer_to_full_address_refused[where env=env_full and args=args0 and w=w0 and payment="PStr ''kp''"
             and owner="PStr ''ko''" and estimate="Some 1000" and tx_fee=1000 and balance=50000
             and w'="w0\<lparr>wallet_fetches := 2\<rparr>"]
        transfer_prepare_sample[where names="\<lambda>_. replicate 26 ''n''" and reg="\<lambda>_. True"]
  by (simp add: env_full_def env0_def args0_def MAXIMUM_NAMES_PER_ADDRESS_def)

text \<open>
  C4 as stated fails when an earlier check fails: the destination owns 26 names, the name
  is not registered, and the error is the one about the registration.
\<close>

theorem transfer_to_full_address_counterexample:
  "MAXIMUM_NAMES_PER_ADDRESS
     < length (get_names_owned_by_address env_full_unregistered (arg_address args0))
   \<and> operation_sanity_check env_full_unregistered (arg_name args0) (PStr ''kp'') (PStr ''ko'')
       (Some (arg_address args0))
     = Return (error_result ''alice.id is not registered yet.'')
   \<and> cli_transfer env_full_unregistered args0 w0
     = (Return (error_result ''alice.id is not registered yet.''), w0\<lparr>wallet_fetches := 2\<rparr>)"
proof -
  have s: "operation_sanity_check env_full_unregistered (arg_name args0) (PStr ''kp'') (PStr ''ko'')
             (Some (arg_address args0))
           = Return (error_result ''alice.id is not registered yet.'')"
    by (simp add: operation_sanity_check_def env_full_unregistered_def env_full_def env0_def args0_def)
  have p: "cli_transfer_prepare env_full_unregistered args0 w0
             = (Inr (PStr ''kp'', PStr ''ko''), w0\<lparr>wallet_fetches := 2\<rparr>)"
    using transfer_prepare_sample[where names="\<lambda>_. replicate 26 ''n''" and reg="\<lambda>_. False"]
    by (simp add: env_full_unregistered_def env_full_def)
  have "cli_transfer env_full_unregistered args0 w0
     = (Return (error_result ''alice.id is not registered yet.''), w0\<lparr>wallet_fetches := 2\<rparr>)"
    using p sanity_check_step_error[OF s, of "w0\<lparr>wallet_fetches := 2\<rparr>"]
    by (simp add: cli_transfer_def finish_def cbind_def error_result_def has_key_def)
  with s show ?thesis
    by (simp add: env_full_unregistered_def env_full_def MAXIMUM_NAMES_PER_ADDRESS_def)
qed

section \<open>An update with the current zonefile\<close>

lemma load_zonefile_identical:
  assumes "decode_zonefile env (py_str env zonefile_data) = Some user_data"
      and "load_zonefile env fqu zonefile_data False
             = Return (PDict [(''status'', PBool True), (''zonefile'', PStr z)])"
      and "current_value_hash env fqu = Some (PStr (hash_zonefile env user_data))"
  shows "load_zonefile env fqu zonefile_data True
           = Return (PDict [(''error'', PStr identical_msg), (''identical'', PBool True),
                            (''zonefile'', PStr z)])"
proof (cases user_data)
  case (PDict d)
  with assms show ?thesis
    by (auto simp: load_zonefile_def is_zonefile_current_def error_result_def
             split: option.splits if_splits)
qed (use assms in \<open>auto simp: load_zonefile_def error_result_def split: option.splits\<close>)

lemma update_load_identical:
  assumes "load_zonefile env fqu zonefile_data True
           = Return (PDict [(''error'', PStr identical_msg), (''identical'', PBool True),
                            (''zonefile'', PStr z)])"
  shows "update_load env fqu interactive zonefile_data w
           = (Inl (Return (error_result ''Zonefile matches the current name hash; not updating.'')), w)"
  using assms
  by (simp add: update_load_def cbind_def step_of_def return_now_def has_key_def)

text \<open>
  C1, as the code has it. Let the payload decode to a zonefile that passes every check of
  \<^verbatim>\<open>load_zonefile\<close> but the one for currency, and let the hash of that zonefile be the
  \<^verbatim>\<open>value_hash\<close> of the name's record. Then \<^verbatim>\<open>load_zonefile\<close> returns the error
  \<^verbatim>\<open>Zonefile data is same as current zonefile; update not needed.\<close> with \<^verbatim>\<open>identical: True\<close>
  and the serialized zonefile. \<^verbatim>\<open>cli_update\<close>, when it gets as far as loading that payload,
  returns \<^verbatim>\<open>{'error': 'Zonefile matches the current name hash; not updating.'}\<close>, a result
  with no \<^verbatim>\<open>identical\<close> field, and the operation queue and the list of calls to the daemon
  are what they were: no queue entry, no broadcast.
\<close>

theorem identical_zonefile_update_is_refused:
  assumes "decode_zonefile env (py_str env zonefile_data) = Some user_data"
      and "load_zonefile env (arg_name args) zonefile_data False
             = Return (PDict [(''status'', PBool True), (''zonefile'', PStr z)])"
      and "current_value_hash env (arg_name args) = Some (PStr (hash_zonefile env user_data))"
  shows "load_zonefile env (arg_name args) zonefile_data True
           = Return (PDict [(''error'', PStr identical_msg), (''identical'', PBool True),
                            (''zonefile'', PStr z)])
       \<and> (cli_update_setup env args interactive w = (Inr (wallet_keys, zonefile_data), w')
            \<longrightarrow> cli_update env args interactive w
                  = (Return (error_result ''Zonefile matches the current name hash; not updating.''), w')
                \<and> queue w' = queue w \<and> calls w' = calls w)"
proof -
  note l = load_zonefile_identical[OF assms]
  have "cli_update env args interactive w
          = (Return (error_result ''Zonefile matches the current name hash; not updating.''), w')"
    if s: "cli_update_setup env args interactive w = (Inr (wallet_keys, zonefile_data), w')"
    using s update_load_identical[OF l, of interactive w']
    by (simp add: cli_update_def cli_update_prepare_def finish_def cbind_def)
  moreover have "queue w' = queue w \<and> calls w' = calls w"
    if s: "cli_update_setup env args interactive w = (Inr (wallet_keys, zonefile_data), w')"
    using quiet_frame[OF quiet_cli_update_setup s] .
  ultimately show ?thesis using l by blast
qed

lemma update_setup_sample:
  "cli_update_setup (env0\<lparr>hash_zonefile := hz\<rparr>) args0 False w0
     = (Inr (wallet0, PStr ''zone''), w0\<lparr>wallet_fetches := 1\<rparr>)"
  by (simp add: cli_update_setup_def update_read_file_def update_fetch_remote_def
      is_valid_path_def env0_def args0_def w0_def wallet0_def step_defs)

lemma load_sample:
  "load_zonefile (env0\<lparr>hash_zonefile := hz\<rparr>) ''alice.id'' (PStr ''zone'') False
     = Return (PDict [(''status'', PBool True), (''zonefile'', PStr ''zf'')])"
  by (simp add: load_zonefile_def decode_zonefile_def ttl_is_valid_def zonefile0_def dict_get_def
        has_key_def env0_def)

text \<open>The sample update when the zonefile hashes to the record's \<^verbatim>\<open>value_hash\<close>.\<close>

theorem identical_zonefile_update_is_refused_witness:
  "load_zonefile env_same ''alice.id'' (PStr ''zone'') True
     = Return (PDict [(''error'', PStr identical_msg), (''identical'', PBool True),
                      (''zonefile'', PStr ''zf'')])
   \<and> cli_update env_same args0 False w0
     = (Return (error_result ''Zonefile matches the current name hash; not updating.''),
        w0\<lparr>wallet_fetches := 1\<rparr>)"
  using identical_zonefile_update_is_refused[where env=env_same and args=args0 and zonefile_data="PStr ''zone''"
             and user_data="PDict zonefile0" and z="''zf''" and interactive=False and w=w0
             and wallet_keys=wallet0 and w'="w0\<lparr>wallet_fetches := 1\<rparr>"]
        update_setup_sample[of "\<lambda>_. ''aa''"] load_sample[of "\<lambda>_. ''aa''"]
  by (simp add: env_same_def args0_def decode_zonefile_def current_value_hash_def record0_def env0_def)

text \<open>
  C1 as stated fails on the result of \<^verbatim>\<open>cli_update\<close>: on the sample update with the current
  zonefile the result has the key \<^verbatim>\<open>error\<close> only; \<^verbatim>\<open>'identical' in result\<close> is false.
\<close>

theorem identical_zonefile_update_counterexample:
  "current_value_hash env_same (arg_name args0)
     = Some (PStr (hash_zonefile env_same (PDict zonefile0)))
   \<and> decode_zonefile env_same ''zone'' = Some (PDict zonefile0)
   \<and> fst (cli_update env_same args0 False w0)
     = Return (PDict [(''error'', PStr ''Zonefile matches the current name hash; not updating.'')])
   \<and> py_in ''identical''
       (PDict [(''error'', PStr ''Zonefile matches the current name hash; not updating.'')])
     = Return False"
proof -
  have "cli_update env_same args0 False w0
     = (Return (error_result ''Zonefile matches the current name hash; not updating.''),
        w0\<lparr>wallet_fetches := 1\<rparr>)"
    by (simp add: cli_update_def cli_update_prepare_def cli_update_setup_def update_load_def
      update_read_file_def update_fetch_remote_def finish_def
      load_zonefile_def decode_zonefile_def ttl_is_valid_def is_zonefile_current_def current_value_hash_def
      is_valid_path_def zonefile0_def record0_def dict_get_def
      env_same_def env0_def args0_def w0_def wallet0_def step_defs)
  then show ?thesis
    by (simp add: env_same_def args0_def decode_zonefile_def current_value_hash_def record0_def
          env0_def error_result_def has_key_def)
qed

section \<open>Looking up a revoked name\<close>

text \<open>
  C10, as the code has it. Let the name be valid and let its record come back as a
  dictionary without an \<^verbatim>\<open>error\<close> key whose \<^verbatim>\<open>revoked\<close> entry is true. Then \<^verbatim>\<open>cli_whois\<close>
  returns the error \<^verbatim>\<open>Name is revoked. ...\<close>; \<^verbatim>\<open>cli_lookup\<close> returns the same error when the
  record has a \<^verbatim>\<open>value_hash\<close> key, and in every case an error result and nothing else: no
  profile, no zonefile.
\<close>

theorem revoked_name_is_refused:
  assumes "check_valid_name env (arg_name args) = None"
      and "get_name_blockchain_record env (arg_name args) = Some (PDict rec)"
      and "\<not> has_key rec ''error''"
      and "truthy (dict_get rec ''revoked'' (PBool False))"
  shows "cli_whois env args = Return (error_result revoked_msg)
       \<and> (has_key rec ''value_hash'' \<longrightarrow> cli_lookup env args = Return (error_result revoked_msg))
       \<and> (\<exists>msg. cli_lookup env args = Return (error_result msg))"
  using assms
  by (auto simp: cli_whois_def cli_lookup_def unless_error_def Let_def)

text \<open>The sample name with a record that is revoked and has a \<^verbatim>\<open>value_hash\<close> entry.\<close>

theorem revoked_name_is_refused_witness:
  "cli_whois env_revoked args0 = Return (error_result revoked_msg)
   \<and> cli_lookup env_revoked args0 = Return (error_result revoked_msg)"
  using revoked_name_is_refused[where env=env_revoked and args=args0
              and rec="[(''value_hash'', PNone), (''revoked'', PBool True)]"]
  by (simp add: env_revoked_def env0_def args0_def check_valid_name_def has_key_def dict_get_def)

text \<open>
  C10 as stated fails for \<^verbatim>\<open>cli_lookup\<close> on a revoked record without a \<^verbatim>\<open>value_hash\<close> key:
  the test for that key comes first, and the error is \<^verbatim>\<open>... has no profile\<close>.
\<close>

theorem revoked_name_without_hash_counterexample:
  "check_valid_name env_revoked_no_hash (arg_name args0) = None
   \<and> get_name_blockchain_record env_revoked_no_hash (arg_name args0)
       = Some (PDict [(''revoked'', PBool True)])
   \<and> truthy (dict_get [(''revoked'', PBool True)] ''revoked'' (PBool False))
   \<and> cli_lookup env_revoked_no_hash args0 = Return (error_result ''alice.id has no profile'')
   \<and> error_result ''alice.id has no profile'' \<noteq> error_result revoked_msg"
  by (simp add: cli_lookup_def unless_error_def env_revoked_no_hash_def env0_def args0_def
        check_valid_name_def has_key_def dict_get_def error_result_def revoked_msg_def)

section \<open>When a zonefile loads\<close>

lemma ttl_is_valid_iff:
  "ttl_is_valid (PDict d) \<longleftrightarrow> (\<exists>v ttl. map_of d ''$ttl'' = Some v \<and> py_int v = Return ttl \<and> 0 \<le> ttl)"
proof (cases "map_of d ''$ttl''")
  case None
  then show ?thesis by (simp add: ttl_is_valid_def)
next
  case (Some v)
  then show ?thesis by (cases "py_int v") (simp_all add: ttl_is_valid_def)
qed

lemma load_zonefile_dict:
  assumes "decode_zonefile env (py_str env zonefile_data) = Some (PDict d)"
      and "make_zone_file env (PDict d) = Some z"
  shows "load_zonefile env fqu zonefile_data check_current =
     (if dict_get d ''$origin'' (PStr []) \<noteq> PStr fqu
      then Return (error_result ''Invalid $origin; must use your name'')
      else if \<not> has_key d ''$ttl''
      then Return (error_result ''Missing $ttl; please supply a positive integer'')
      else if \<not> is_user_zonefile env (PDict d)
      then Return (error_result ''Zonefile is missing or has invalid URI and/or TXT records'')
      else if \<not> ttl_is_valid (PDict d)
      then Return (error_result ''Invalid $ttl; must be a positive integer'')
      else if check_current \<and> is_zonefile_current env fqu (PDict d)
      then Return (PDict [(''error'', PStr identical_msg), (''identical'', PBool True),
                          (''zonefile'', PStr z)])
      else Return (PDict [(''status'', PBool True), (''zonefile'', PStr z)]))"
  using assms by (auto simp: load_zonefile_def)

lemma load_zonefile_success_dict:
  assumes "load_zonefile env fqu zonefile_data check_current
             = Return (PDict [(''status'', PBool True), (''zonefile'', PStr z)])"
  shows "\<exists>d. decode_zonefile env (py_str env zonefile_data) = Some (PDict d) \<and>
             make_zone_file env (PDict d) = Some z"
proof (cases "decode_zonefile env (py_str env zonefile_data)")
  case None
  with assms show ?thesis by (simp add: load_zonefile_def error_result_def)
next
  case (Some user_data)
  show ?thesis
  proof (cases "make_zone_file env user_data")
    case None
    with Some assms show ?thesis by (simp add: load_zonefile_def error_result_def)
  next
    case (Some z')
    note mk = this
    show ?thesis
    proof (cases user_data)
      case (PDict d)
      with \<open>decode_zonefile env (py_str env zonefile_data) = Some user_data\<close> mk assms
      show ?thesis
        by (auto simp: load_zonefile_dict error_result_def split: if_splits)
    qed (use \<open>decode_zonefile env (py_str env zonefile_data) = Some user_data\<close> mk assms
          in \<open>simp_all add: load_zonefile_def\<close>)
  qed
qed

text \<open>
  C7, as the code has it. \<^verbatim>\<open>load_zonefile\<close> returns \<^verbatim>\<open>{'status': True, 'zonefile': z}\<close> if and
  only if the payload decodes (as JSON, or else as zone-file text) to a dictionary,
  \<^verbatim>\<open>make_zone_file\<close> serializes that dictionary to \<open>z\<close>, its \<^verbatim>\<open>$origin\<close> is the name, it has a
  \<^verbatim>\<open>$ttl\<close> that \<^verbatim>\<open>int\<close> converts to a number that is not negative, \<^verbatim>\<open>is_user_zonefile\<close>
  accepts it, and, when currency is checked, it is not the current zonefile of the name.
  Each failure has its own error: a payload that does not decode, a dictionary that does
  not serialize, a wrong \<^verbatim>\<open>$origin\<close>, a missing \<^verbatim>\<open>$ttl\<close>, records that \<^verbatim>\<open>is_user_zonefile\<close>
  rejects, a \<^verbatim>\<open>$ttl\<close> that is not a number or is negative; the first check that fails, in
  this order, decides.
\<close>

theorem load_zonefile_success_iff:
  "((load_zonefile env fqu zonefile_data check_current
       = Return (PDict [(''status'', PBool True), (''zonefile'', PStr z)]))
    \<longleftrightarrow> (\<exists>d v ttl. decode_zonefile env (py_str env zonefile_data) = Some (PDict d) \<and>
           make_zone_file env (PDict d) = Some z \<and>
           dict_get d ''$origin'' (PStr []) = PStr fqu \<and>
           map_of d ''$ttl'' = Some v \<and> py_int v = Return ttl \<and> 0 \<le> ttl \<and>
           is_user_zonefile env (PDict d) \<and>
           \<not> (check_current \<and> is_zonefile_current env fqu (PDict d))))
   \<and> (decode_zonefile env (py_str env zonefile_data) = None
        \<longrightarrow> load_zonefile env fqu zonefile_data check_current
              = Return (error_result ''Zonefile data is invalid.''))
   \<and> (decode_zonefile env (py_str env zonefile_data) = Some user_data \<and>
       make_zone_file env user_data = None
        \<longrightarrow> load_zonefile env fqu zonefile_data check_current
              = Return (error_result (''Invalid zonefile'' @ [CHR 0x0A] @ format_exc env)))
   \<and> (decode_zonefile env (py_str env zonefile_data) = Some (PDict d) \<and>
       make_zone_file env (PDict d) = Some z
        \<longrightarrow> (dict_get d ''$origin'' (PStr []) \<noteq> PStr fqu
               \<longrightarrow> load_zonefile env fqu zonefile_data check_current
                     = Return (error_result ''Invalid $origin; must use your name''))
          \<and> (dict_get d ''$origin'' (PStr []) = PStr fqu \<and> \<not> has_key d ''$ttl''
               \<longrightarrow> load_zonefile env fqu zonefile_data check_current
                     = Return (error_result ''Missing $ttl; please supply a positive integer''))
          \<and> (dict_get d ''$origin'' (PStr []) = PStr fqu \<and> has_key d ''$ttl'' \<and>
              \<not> is_user_zonefile env (PDict d)
               \<longrightarrow> load_zonefile env fqu zonefile_data check_current
                     = Return (error_result
                         ''Zonefile is missing or has invalid URI and/or TXT records''))
          \<and> (dict_get d ''$origin'' (PStr []) = PStr fqu \<and> has_key d ''$ttl'' \<and>
              is_user_zonefile env (PDict d) \<and> \<not> ttl_is_valid (PDict d)
               \<longrightarrow> load_zonefile env fqu zonefile_data check_current
                     = Return (error_result ''Invalid $ttl; must be a positive integer'')))"
proof -
  have iff: "(load_zonefile env fqu zonefile_data check_current
       = Return (PDict [(''status'', PBool True), (''zonefile'', PStr z)]))
    \<longleftrightarrow> (\<exists>d v ttl. decode_zonefile env (py_str env zonefile_data) = Some (PDict d) \<and>
           make_zone_file env (PDict d) = Some z \<and>
           dict_get d ''$origin'' (PStr []) = PStr fqu \<and>
           map_of d ''$ttl'' = Some v \<and> py_int v = Return ttl \<and> 0 \<le> ttl \<and>
           is_user_zonefile env (PDict d) \<and>
           \<not> (check_current \<and> is_zonefile_current env fqu (PDict d)))" (is "?L \<longleftrightarrow> ?R")
  proof
    assume l: ?L
    from load_zonefile_success_dict[OF l] obtain d where
      d: "decode_zonefile env (py_str env zonefile_data) = Some (PDict d)"
         "make_zone_file env (PDict d) = Some z" by blast
    from l have "dict_get d ''$origin'' (PStr []) = PStr fqu \<and> ttl_is_valid (PDict d) \<and>
                 is_user_zonefile env (PDict d) \<and>
                 \<not> (check_current \<and> is_zonefile_current env fqu (PDict d))"
      unfolding load_zonefile_dict[OF d]
      by (auto simp: error_result_def split: if_splits)
    with d show ?R unfolding ttl_is_valid_iff by blast
  next
    assume ?R
    then obtain d v ttl where
      d: "decode_zonefile env (py_str env zonefile_data) = Some (PDict d)"
         "make_zone_file env (PDict d) = Some z"
      and r: "dict_get d ''$origin'' (PStr []) = PStr fqu"
         "map_of d ''$ttl'' = Some v" "py_int v = Return ttl" "0 \<le> ttl"
         "is_user_zonefile env (PDict d)"
         "\<not> (check_current \<and> is_zonefile_current env fqu (PDict d))"
      by blast
    from r have "ttl_is_valid (PDict d)" "has_key d ''$ttl''"
      unfolding ttl_is_valid_iff by (auto simp: has_key_def)
    with r show ?L unfolding load_zonefile_dict[OF d] by auto
  qed
  have e1: "decode_zonefile env (py_str env zonefile_data) = None
        \<longrightarrow> load_zonefile env fqu zonefile_data check_current
              = Return (error_result ''Zonefile data is invalid.'')"
    by (simp add: load_zonefile_def)
  have e2: "decode_zonefile env (py_str env zonefile_data) = Some user_data \<and>
       make_zone_file env user_data = None
        \<longrightarrow> load_zonefile env fqu zonefile_data check_current
              = Return (error_result (''Invalid zonefile'' @ [CHR 0x0A] @ format_exc env))"
    by (simp add: load_zonefile_def)
  have e3: "decode_zonefile env (py_str env zonefile_data) = Some (PDict d) \<and>
       make_zone_file env (PDict d) = Some z
        \<longrightarrow> (dict_get d ''$origin'' (PStr []) \<noteq> PStr fqu
               \<longrightarrow> load_zonefile env fqu zonefile_data check_current
                     = Return (error_result ''Invalid $origin; must use your name''))
          \<and> (dict_get d ''$origin'' (PStr []) = PStr fqu \<and> \<not> has_key d ''$ttl''
               \<longrightarrow> load_zonefile env fqu zonefile_data check_current
                     = Return (error_result ''Missing $ttl; please supply a positive integer''))
          \<and> (dict_get d ''$origin'' (PStr []) = PStr fqu \<and> has_key d ''$ttl'' \<and>
              \<not> is_user_zonefile env (PDict d)
               \<longrightarrow> load_zonefile env fqu zonefile_data check_current
                     = Return (error_result
                         ''Zonefile is missing or has invalid URI and/or TXT records''))
          \<and> (dict_get d ''$origin'' (PStr []) = PStr fqu \<and> has_key d ''$ttl'' \<and>
              is_user_zonefile env (PDict d) \<and> \<not> ttl_is_valid (PDict d)
               \<longrightarrow> load_zonefile env fqu zonefile_data check_current
                     = Return (error_result ''Invalid $ttl; must be a positive integer''))"
    by (simp add: load_zonefile_dict)
  from iff e1 e2 e3 show ?thesis by (intro conjI)
qed

text \<open>The sample zonefile loads; it does not when it fails to parse or names another name.\<close>

theorem load_zonefile_success_iff_witness:
  "load_zonefile env0 ''alice.id'' (PStr ''zone'') True
     = Return (PDict [(''status'', PBool True), (''zonefile'', PStr ''zf'')])
   \<and> load_zonefile (env0\<lparr>parse_zone_file := \<lambda>_. None\<rparr>) ''alice.id'' (PStr ''zone'') True
     = Return (error_result ''Zonefile data is invalid.'')
   \<and> load_zonefile env0 ''bob.id'' (PStr ''zone'') True
     = Return (error_result ''Invalid $origin; must use your name'')"
  using load_zonefile_success_iff[where env=env0 and fqu="''alice.id''" and zonefile_data="PStr ''zone''" and z="''zf''"
             and check_current=True and d=zonefile0 and user_data="PDict zonefile0"]
        load_zonefile_success_iff[where env="env0\<lparr>parse_zone_file := \<lambda>_. None\<rparr>" and fqu="''alice.id''"
             and zonefile_data="PStr ''zone''" and z="''zf''"
             and check_current=True and d=zonefile0 and user_data="PDict zonefile0"]
        load_zonefile_success_iff[where env=env0 and fqu="''bob.id''" and zonefile_data="PStr ''zone''" and z="''zf''"
             and check_current=True and d=zonefile0 and user_data="PDict zonefile0"]
  by (simp add: decode_zonefile_def env0_def zonefile0_def dict_get_def
        is_zonefile_current_def current_value_hash_def record0_def)

text \<open>
  C7 as stated fails when the decoded zonefile does not serialize: the payload parses, its
  \<^verbatim>\<open>$origin\<close> is the name, its \<^verbatim>\<open>$ttl\<close> is 3600, its records are accepted and it is not the
  current zonefile, yet the result is the error \<^verbatim>\<open>Invalid zonefile\<close>.
\<close>

theorem load_zonefile_unserializable_counterexample:
  "decode_zonefile env_unserializable (py_str env_unserializable (PStr ''zone'')) = Some (PDict zonefile0)
   \<and> dict_get zonefile0 ''$origin'' (PStr []) = PStr ''alice.id''
   \<and> map_of zonefile0 ''$ttl'' = Some (PInt 3600)
   \<and> is_user_zonefile env_unserializable (PDict zonefile0)
   \<and> \<not> is_zonefile_current env_unserializable ''alice.id'' (PDict zonefile0)
   \<and> load_zonefile env_unserializable ''alice.id'' (PStr ''zone'') True
       = Return (error_result (''Invalid zonefile'' @ [CHR 0x0A] @ ''tb''))"
  by (simp add: load_zonefile_def decode_zonefile_def env_unserializable_def env0_def zonefile0_def
        dict_get_def is_zonefile_current_def current_value_hash_def record0_def)

section \<open>The fee fallback\<close>

lemma registration_reply_fallback:
  assumes "fst pre = Some a" "fst reg = Some b" "fst upd = Some c"
      and "py_int name_price = Return price"
      and "snd pre \<or> snd reg \<or> snd upd"
  shows "\<exists>reply ws. registration_reply payment name_price pre reg upd = Return (PDict reply) \<and>
           map_of reply ''preorder_tx_fee'' = Some (PInt a) \<and>
           map_of reply ''register_tx_fee'' = Some (PInt b) \<and>
           map_of reply ''update_tx_fee'' = Some (PInt c) \<and>
           map_of reply ''warnings'' = Some (PList ws) \<and> ws \<noteq> []"
  using assms by (auto simp: registration_reply_def int_of_fee_def Let_def)

lemma fee_or_fallback_flag: "snd (fee_or_fallback env estimate n) \<longleftrightarrow> estimate = None"
  by (cases estimate) (simp_all add: fee_or_fallback_def)

text \<open>
  C3, as the code has it. In \<^verbatim>\<open>get_total_registration_fees\<close>: when the price of the name is
  known, the three estimators answer, at least one of them answers \<^verbatim>\<open>None\<close>, and
  \<^verbatim>\<open>get_tx_fee\<close> on the dummy transaction of the fixed length gives a fee wherever it is
  needed, the reply holds these fees and a \<^verbatim>\<open>warnings\<close> list that is not empty. In
  \<^verbatim>\<open>operation_sanity_check\<close>: when the estimator answers \<^verbatim>\<open>None\<close> and \<^verbatim>\<open>get_tx_fee\<close> answers
  \<^verbatim>\<open>None\<close> as well, the result is the error \<^verbatim>\<open>Failed to get fee estimate\<close> (for a name that is
  registered and owned by the wallet); when \<^verbatim>\<open>get_tx_fee\<close> gives a fee, the result is the
  one the check would give had the estimator answered that fee: the fallback is used for
  the balance test and nothing tells the caller.
\<close>

theorem fee_fallback_behaviour:
  shows
   "(get_name_cost env name = Some (PDict data) \<and> \<not> has_key data ''error'' \<and>
     map_of data ''satoshis'' = Some name_price \<and> py_int name_price = Return price \<and>
     estimate_preorder_tx_fee env name = Return pre \<and>
     estimate_register_tx_fee env name = Return reg \<and>
     estimate_update_tx_fee env name = Return upd \<and>
     (pre = None \<or> reg = None \<or> upd = None) \<and>
     fst (fee_or_fallback env pre (APPROX_PREORDER_TX_LEN env)) = Some a \<and>
     fst (fee_or_fallback env reg (APPROX_REGISTER_TX_LEN env)) = Some b \<and>
     fst (fee_or_fallback env upd (APPROX_UPDATE_TX_LEN env)) = Some c
     \<longrightarrow> (\<exists>reply ws.
            get_total_registration_fees env name payment owner = Return (PDict reply) \<and>
            map_of reply ''preorder_tx_fee'' = Some (PInt a) \<and>
            map_of reply ''register_tx_fee'' = Some (PInt b) \<and>
            map_of reply ''update_tx_fee'' = Some (PInt c) \<and>
            map_of reply ''warnings'' = Some (PList ws) \<and> ws \<noteq> []))
  \<and> (is_name_registered env fqu \<and>
     is_name_owner env fqu (fst (snd (get_addresses_from_file env))) \<and>
     estimate_update_tx_fee env fqu = Return None \<and>
     get_tx_fee env (concat (replicate (APPROX_UPDATE_TX_LEN env) ''00'')) = None
     \<longrightarrow> operation_sanity_check env fqu payment owner None
           = Return (error_result ''Failed to get fee estimate''))
  \<and> (is_name_registered env fqu \<and>
     is_name_owner env fqu (fst (snd (get_addresses_from_file env))) \<and>
     estimate_transfer_tx_fee env fqu = Return None \<and>
     get_tx_fee env (concat (replicate (APPROX_TRANSFER_TX_LEN env) ''00'')) = None
     \<longrightarrow> operation_sanity_check env fqu payment owner (Some address)
           = Return (error_result ''Failed to get fee estimate''))
  \<and> (estimate_update_tx_fee env fqu = Return None \<and>
     get_tx_fee env (concat (replicate (APPROX_UPDATE_TX_LEN env) ''00'')) = Some fee
     \<longrightarrow> operation_sanity_check env fqu payment owner None
           = operation_sanity_check (env\<lparr>estimate_update_tx_fee := \<lambda>_. Return (Some fee)\<rparr>)
               fqu payment owner None)
  \<and> (estimate_transfer_tx_fee env fqu = Return None \<and>
     get_tx_fee env (concat (replicate (APPROX_TRANSFER_TX_LEN env) ''00'')) = Some fee
     \<longrightarrow> operation_sanity_check env fqu payment owner (Some address)
           = operation_sanity_check (env\<lparr>estimate_transfer_tx_fee := \<lambda>_. Return (Some fee)\<rparr>)
               fqu payment owner (Some address))"
proof (intro conjI impI; (elim conjE)?)
  assume h: "get_name_cost env name = Some (PDict data)" "\<not> has_key data ''error''"
     "map_of data ''satoshis'' = Some name_price" "py_int name_price = Return price"
     "estimate_preorder_tx_fee env name = Return pre"
     "estimate_register_tx_fee env name = Return reg"
     "estimate_update_tx_fee env name = Return upd"
     "pre = None \<or> reg = None \<or> upd = None"
     "fst (fee_or_fallback env pre (APPROX_PREORDER_TX_LEN env)) = Some a"
     "fst (fee_or_fallback env reg (APPROX_REGISTER_TX_LEN env)) = Some b"
     "fst (fee_or_fallback env upd (APPROX_UPDATE_TX_LEN env)) = Some c"
  have flag: "snd (fee_or_fallback env pre (APPROX_PREORDER_TX_LEN env)) \<or>
              snd (fee_or_fallback env reg (APPROX_REGISTER_TX_LEN env)) \<or>
              snd (fee_or_fallback env upd (APPROX_UPDATE_TX_LEN env))"
    using h(8) by (simp add: fee_or_fallback_flag)
  have "get_total_registration_fees env name payment owner
          = registration_reply payment name_price
              (fee_or_fallback env pre (APPROX_PREORDER_TX_LEN env))
              (fee_or_fallback env reg (APPROX_REGISTER_TX_LEN env))
              (fee_or_fallback env upd (APPROX_UPDATE_TX_LEN env))"
    using h(1-7) by (simp add: get_total_registration_fees_def registration_estimates_def)
  with registration_reply_fallback[OF h(9) h(10) h(11) h(4) flag, of payment]
  show "\<exists>reply ws.
            get_total_registration_fees env name payment owner = Return (PDict reply) \<and>
            map_of reply ''preorder_tx_fee'' = Some (PInt a) \<and>
            map_of reply ''register_tx_fee'' = Some (PInt b) \<and>
            map_of reply ''update_tx_fee'' = Some (PInt c) \<and>
            map_of reply ''warnings'' = Some (PList ws) \<and> ws \<noteq> []"
    by simp
next
  assume "is_name_registered env fqu"
     "is_name_owner env fqu (fst (snd (get_addresses_from_file env)))"
     "estimate_update_tx_fee env fqu = Return None"
     "get_tx_fee env (concat (replicate (APPROX_UPDATE_TX_LEN env) ''00'')) = None"
  then show "operation_sanity_check env fqu payment owner None
           = Return (error_result ''Failed to get fee estimate'')"
    by (cases "get_addresses_from_file env") (simp add: operation_sanity_check_def)
next
  assume "is_name_registered env fqu"
     "is_name_owner env fqu (fst (snd (get_addresses_from_file env)))"
     "estimate_transfer_tx_fee env fqu = Return None"
     "get_tx_fee env (concat (replicate (APPROX_TRANSFER_TX_LEN env) ''00'')) = None"
  then show "operation_sanity_check env fqu payment owner (Some address)
           = Return (error_result ''Failed to get fee estimate'')"
    by (cases "get_addresses_from_file env") (simp add: operation_sanity_check_def)
next
  assume "estimate_update_tx_fee env fqu = Return None"
     "get_tx_fee env (concat (replicate (APPROX_UPDATE_TX_LEN env) ''00'')) = Some fee"
  then show "operation_sanity_check env fqu payment owner None
           = operation_sanity_check (env\<lparr>estimate_update_tx_fee := \<lambda>_. Return (Some fee)\<rparr>)
               fqu payment owner None"
    by (cases "get_addresses_from_file env")
       (auto simp: operation_sanity_check_def can_receive_name_def split: option.splits)
next
  assume "estimate_transfer_tx_fee env fqu = Return None"
     "get_tx_fee env (concat (replicate (APPROX_TRANSFER_TX_LEN env) ''00'')) = Some fee"
  then show "operation_sanity_check env fqu payment owner (Some address)
           = operation_sanity_check (env\<lparr>estimate_transfer_tx_fee := \<lambda>_. Return (Some fee)\<rparr>)
               fqu payment owner (Some address)"
    by (cases "get_addresses_from_file env")
       (auto simp: operation_sanity_check_def can_receive_name_def split: option.splits)
qed

text \<open>
  The sample registration when the update estimator gives no estimate, and the sample
  sanity check when there is no fallback either.
\<close>

theorem fee_fallback_behaviour_witness:
  "(\<exists>reply ws.
      get_total_registration_fees env_no_estimate ''alice.id'' (PStr ''kp'') (PStr ''ko'')
        = Return (PDict reply) \<and>
      map_of reply ''preorder_tx_fee'' = Some (PInt 1000) \<and>
      map_of reply ''register_tx_fee'' = Some (PInt 1000) \<and>
      map_of reply ''update_tx_fee'' = Some (PInt 2000) \<and>
      map_of reply ''warnings'' = Some (PList ws) \<and> ws \<noteq> [])
   \<and> operation_sanity_check env_no_fee ''alice.id'' (PStr ''kp'') (PStr ''ko'') None
       = Return (error_result ''Failed to get fee estimate'')"
  using fee_fallback_behaviour[where env=env_no_estimate and name="''alice.id''" and data="[(''satoshis'', PInt 25000)]"
             and name_price="PInt 25000" and price=25000 and pre="Some 1000" and reg="Some 1000"
             and upd=None and a=1000 and b=1000 and c=2000 and payment="PStr ''kp''"
             and owner="PStr ''ko''"]
        fee_fallback_behaviour[where env=env_no_fee and fqu="''alice.id''" and payment="PStr ''kp''"
             and owner="PStr ''ko''"]
  by (simp add: env_no_fee_def env_no_estimate_def env0_def has_key_def fee_or_fallback_def)

text \<open>
  C3 as stated fails in \<^verbatim>\<open>operation_sanity_check\<close>: the fallback can be \<^verbatim>\<open>None\<close>, which ends
  the check with an error; and when the fallback is there the check succeeds with
  \<^verbatim>\<open>{'status': True}\<close>, a result without a warning.
\<close>

theorem fee_fallback_counterexample:
  "estimate_update_tx_fee env_no_fee ''alice.id'' = Return None
   \<and> get_tx_fee env_no_fee (concat (replicate (APPROX_UPDATE_TX_LEN env_no_fee) ''00'')) = None
   \<and> operation_sanity_check env_no_fee ''alice.id'' (PStr ''kp'') (PStr ''ko'') None
       = Return (error_result ''Failed to get fee estimate'')
   \<and> estimate_update_tx_fee env_no_estimate ''alice.id'' = Return None
   \<and> operation_sanity_check env_no_estimate ''alice.id'' (PStr ''kp'') (PStr ''ko'') None
       = Return status_true
   \<and> py_in ''warnings'' status_true = Return False"
  by (simp add: operation_sanity_check_def env_no_fee_def env_no_estimate_def env0_def
        status_true_def has_key_def)

section \<open>The transaction of a replicated zonefile\<close>

subsection \<open>The steps of the search leave the queue and the calls alone\<close>

lemma quiet_case_outcome [intro!]:
  "(\<And>x. quiet (f x)) \<Longrightarrow> (\<And>e. quiet (g e)) \<Longrightarrow> quiet h \<Longrightarrow> quiet (case_outcome f g h out)"
  by (cases out) simp_all

lemma quiet_sync_given_zonefile [simp, intro!]:
  "quiet (sync_given_zonefile env name user_data interactive nonstandard)"
  unfolding sync_given_zonefile_def by blast


lemma quiet_sync_from_storage [simp, intro!]: "quiet (sync_from_storage env name)"
  unfolding sync_from_storage_def Let_def by blast

lemma quiet_sync_txid_from_record [simp, intro!]:
  "quiet (sync_txid_from_record env name zonefile_hash)"
  unfolding sync_txid_from_record_def by blast

lemma quiet_queuedb_find [simp, intro!]:
  "quiet (\<lambda>w. (Inr (queuedb_find env kind name (queue w)), w))"
  by (simp add: quiet_def)


subsection \<open>The two loops\<close>









subsection \<open>The search\<close>















subsection \<open>The command\<close>






subsection \<open>Sample runs\<close>








end
